theory Spec2Isabelle
  imports Complex_Main "HOL-Library.Sublist"
begin

section \<open>The decision evaluation pipeline of server.js\<close>

text \<open>
  A shallow embedding of the scoring pipeline and of the POST /game handler of
  \<^verbatim>\<open>src/server.js\<close>.

  \<^item> A JavaScript string is the list of its UTF-16 code units. The keyword tables hold
    Vietnamese text; every literal below is the code-unit sequence of the literal in the
    source file (which is in normalisation form C), with an ASCII rendering beside it.
  \<^item> A JavaScript number is a \<open>real\<close>. Every number the pipeline compares or
    clamps comes from \<open>JSON.parse\<close> or from integer arithmetic, so it is never NaN.
  \<^item> Built-ins of the runtime and the external collaborators (\<open>toLowerCase\<close>,
    \<open>JSON.parse\<close>, the process environment, the SDK module, the scoring backend) are
    fields of the record \<open>runtime\<close>: every theorem holds for all of them.
  \<^item> A thrown value is a \<open>jserror\<close>, an error object with its message (the SDK and
    the runtime throw no null or undefined); a function that can throw returns
    \<open>jserror + 'a\<close>, with \<open>Inl\<close> for the throw.
  \<^item> An \<open>async\<close> function is modelled by what it resolves or rejects to; requests are
    handled one at a time. The lines written by \<open>console.error\<close> are left out.
\<close>

subsection \<open>Strings\<close>

type_synonym jsstring = "nat list"

text \<open>\<open>String.prototype.includes\<close>: the argument occurs as a contiguous run.\<close>

fun str_includes :: "jsstring \<Rightarrow> jsstring \<Rightarrow> bool" where
  "str_includes [] kw = (kw = [])"
| "str_includes (c # cs) kw = (prefix kw (c # cs) \<or> str_includes cs kw)"

text \<open>
  White space and line terminators of ECMAScript, as removed by
  \<open>String.prototype.trim\<close>: TAB, LF, VT, FF, CR, SP, NBSP, U+1680, U+2000..U+200A,
  U+2028, U+2029, U+202F, U+205F, U+3000, U+FEFF.
\<close>

definition isWhiteSpace :: "nat \<Rightarrow> bool" where
  "isWhiteSpace c =
     (c \<in> {9, 10, 11, 12, 13, 32, 160, 5760, 8232, 8233, 8239, 8287, 12288, 65279}
      \<or> (8192 \<le> c \<and> c \<le> 8202))"

definition trim :: "jsstring \<Rightarrow> jsstring" where
  "trim s = rev (dropWhile isWhiteSpace (rev (dropWhile isWhiteSpace s)))"

text \<open>\<open>s.split(',')\<close>: the pieces between commas (code unit 44); never empty.\<close>

fun split_comma :: "jsstring \<Rightarrow> jsstring list" where
  "split_comma [] = [[]]"
| "split_comma (c # cs) =
     (if c = 44 then [] # split_comma cs
      else (case split_comma cs of
              [] \<Rightarrow> [[c]]
            | piece # pieces \<Rightarrow> (c # piece) # pieces))"

subsection \<open>Keyword tables (lines 68-80)\<close>

definition VIOLATION_KEYWORDS :: "jsstring list" where
  "VIOLATION_KEYWORDS =
    [ [99, 104, 105, 97, 32, 114, 7869]                   \<comment> \<open>chia re~\<close>
    , [107, 237, 99, 104, 32, 273, 7897, 110, 103]        \<comment> \<open>kich dong\<close>
    , [120, 226, 109, 32, 112, 104, 7841, 109]            \<comment> \<open>xam pham\<close>
    , [99, 104, 7889, 110, 103, 32, 112, 104, 225]        \<comment> \<open>chong pha\<close>
    , [233, 112, 32, 98, 117, 7897, 99]                   \<comment> \<open>ep buoc\<close>
    , [116, 114, 225, 105, 32, 112, 104, 233, 112]        \<comment> \<open>trai phep\<close>
    , [109, 234, 32, 116, 237, 110]                       \<comment> \<open>me tin\<close>
    , [100, 105, 7877, 110, 32, 98, 105, 7871, 110, 32, 104, 111, 224, 32, 98, 236, 110, 104]
                                                          \<comment> \<open>dien bien hoa binh\<close>
    , [98, 7841, 111, 32, 108, 7921, 99]                  \<comment> \<open>bao luc\<close>
    ]"

definition POSITIVE_KEYWORDS :: "jsstring list" where
  "POSITIVE_KEYWORDS =
    [ [104, 111, 224, 32, 98, 236, 110, 104]              \<comment> \<open>hoa binh\<close>
    , [273, 111, 224, 110, 32, 107, 7871, 116]            \<comment> \<open>doan ket\<close>
    , [116, 7915, 32, 116, 104, 105, 7879, 110]           \<comment> \<open>tu thien\<close>
    , [103, 105, 225, 111, 32, 100, 7909, 99]             \<comment> \<open>giao duc\<close>
    , [112, 104, 225, 116, 32, 116, 114, 105, 7875, 110]  \<comment> \<open>phat trien\<close>
    , [104, 7895, 32, 116, 114, 7907]                     \<comment> \<open>ho tro\<close>
    , [116, 244, 110, 32, 116, 114, 7885, 110, 103]       \<comment> \<open>ton trong\<close>
    , [107, 104, 117, 121, 7871, 110, 32, 107, 104, 237, 99, 104]
                                                          \<comment> \<open>khuyen khich\<close>
    , [99, 244, 110, 103, 32, 98, 7857, 110, 103]         \<comment> \<open>cong bang\<close>
    ]"

definition NEGATIVE_KEYWORDS :: "jsstring list" where
  "NEGATIVE_KEYWORDS =
    [ [98, 7841, 111, 32, 108, 7921, 99]                  \<comment> \<open>bao luc\<close>
    , [99, 104, 105, 7871, 110, 32, 116, 114, 97, 110, 104]
                                                          \<comment> \<open>chien tranh\<close>
    , [112, 104, 226, 110, 32, 98, 105, 7879, 116]        \<comment> \<open>phan biet\<close>
    , [225, 112, 32, 98, 7913, 99]                        \<comment> \<open>ap buc\<close>
    , [109, 234, 32, 116, 237, 110]                       \<comment> \<open>me tin\<close>
    ]"

subsection \<open>JSON values and evaluation results\<close>

datatype json =
    JNull
  | JBool bool
  | JNum real
  | JStr jsstring
  | JArr "json list"
  | JObj "(jsstring \<times> json) list"

text \<open>JavaScript truthiness of a JSON value, as \<open>||\<close> tests it.\<close>

fun truthy :: "json \<Rightarrow> bool" where
  "truthy JNull = False"
| "truthy (JBool b) = b"
| "truthy (JNum x) = (x \<noteq> 0)"
| "truthy (JStr s) = (s \<noteq> [])"
| "truthy (JArr xs) = True"
| "truthy (JObj kvs) = True"

record evalResult =
  violation :: bool
  change :: real
  comment :: json
  tips :: "json list"

text \<open>
  The comment of the fixed violation result (lines 247, 264, 271):
  "Ban da vi pham cac quy dinh cua Nha nuoc, ton giao cua ban se bi xoa bo."
\<close>

definition VIOLATION_COMMENT :: jsstring where
  "VIOLATION_COMMENT =
    [66, 7841, 110, 32, 273, 227, 32, 118, 105, 32, 112, 104, 7841, 109, 32, 99, 225, 99,
     32, 113, 117, 121, 32, 273, 7883, 110, 104, 32, 99, 7911, 97, 32, 78, 104, 224, 32,
     110, 432, 7899, 99, 44, 32, 116, 244, 110, 32, 103, 105, 225, 111, 32, 99, 7911, 97,
     32, 98, 7841, 110, 32, 115, 7869, 32, 98, 7883, 32, 120, 243, 97, 32, 98, 7887, 46]"

text \<open>The comment of the heuristic (line 256): "Danh gia nhanh (heuristic)."\<close>

definition HEURISTIC_COMMENT :: jsstring where
  "HEURISTIC_COMMENT =
    [272, 225, 110, 104, 32, 103, 105, 225, 32, 110, 104, 97, 110, 104, 32, 40, 104, 101,
     117, 114, 105, 115, 116, 105, 99, 41, 46]"

definition violationResult :: evalResult where
  "violationResult =
     \<lparr>violation = True, change = - 10000, comment = JStr VIOLATION_COMMENT, tips = []\<rparr>"

subsection \<open>clamp (lines 136-138)\<close>

definition clamp :: "real \<Rightarrow> real \<Rightarrow> real \<Rightarrow> real" where
  "clamp num lo hi = min hi (max lo num)"

subsection \<open>Thrown values, the runtime and the process-wide state\<close>

datatype jserror = Error string | TypeError string

record evalContext =
  ctx_religion :: jsstring
  ctx_followers :: real
  ctx_round :: int

text \<open>
  The three shapes \<open>parseGeminiResult\<close> reads text from, by the branch of lines
  218-225 that a response takes, and every other value:
  \<^item> \<open>LazyText r\<close>: \<open>resp.response.text\<close> is a function; \<open>r\<close> is what calling it
    gives, a string or a throw;
  \<^item> \<open>Candidates ps\<close>: \<open>resp.candidates[0].content.parts\<close> is the array \<open>ps\<close>, each
    part with its \<open>text\<close> string or without one;
  \<^item> \<open>PlainString s\<close>: the response is itself a string.
\<close>

datatype response =
    LazyText "jserror + jsstring"
  | Candidates "jsstring option list"
  | PlainString jsstring
  | Unrecognised

text \<open>The handle \<open>new GoogleGenAI({ apiKey })\<close> (line 190), bound to its key.\<close>

datatype client = GoogleGenAI jsstring

text \<open>
  What loading the SDK gives (lines 179-189): \<open>require\<close> succeeds; or it throws and
  the dynamic \<open>import\<close> yields the constructor, yields a module without it, or rejects.
\<close>

datatype sdk_load = RequireOk | ImportOk | ImportNoConstructor | ImportRejected jserror

record environment =
  GEMINI_API_KEYS :: "jsstring option"
  GEMINI_API_KEY :: "jsstring option"
  API_KEY :: "jsstring option"
  GOOGLE_API_KEY :: "jsstring option"

text \<open>
  One entry per iteration of the loop of \<open>callGemini\<close> (lines 199-212): the key tried
  and how the try ended. The trace is an observation of the run, not data the program
  holds; the backend's answer may depend on everything tried before.
\<close>

type_synonym trace = "(jsstring \<times> (jserror + response)) list"

text \<open>
  What the pipeline takes from outside: \<open>String.prototype.toLowerCase\<close>; \<open>JSON.parse\<close>
  (\<open>None\<close> when it throws its SyntaxError); the four variables of \<open>process.env\<close>;
  the outcome of loading the SDK; \<open>client.models.generateContent\<close> (line 202), whose
  answer is a response or a throw; and \<open>buildGeminiPrompt\<close> (lines 141-163), a
  concatenation of strings that cannot throw and whose text no property here depends on.
\<close>

record runtime =
  toLowerCase :: "jsstring \<Rightarrow> jsstring"
  JSON_parse :: "jsstring \<Rightarrow> json option"
  process_env :: environment
  sdk_module :: sdk_load
  generateContent :: "trace \<Rightarrow> client \<Rightarrow> jsstring \<Rightarrow> jserror + response"
  buildGeminiPrompt :: "jsstring \<Rightarrow> evalContext \<Rightarrow> jsstring"

text \<open>The state shared by all requests: the \<open>Map\<close> of line 7, and the trace.\<close>

record world =
  aiClientCache :: "jsstring \<rightharpoonup> client"
  attempts :: trace

subsection \<open>localHeuristic (lines 243-257)\<close>

text \<open>The loop of lines 245-249 and 262-266: some violation keyword occurs.\<close>

definition hasViolationKeyword :: "jsstring \<Rightarrow> bool" where
  "hasViolationKeyword lower = list_ex (str_includes lower) VIOLATION_KEYWORDS"

definition positiveScore :: "jsstring \<Rightarrow> int \<Rightarrow> int" where
  "positiveScore lower score0 =
     foldl (\<lambda>score pk. if str_includes lower pk then score + 1 else score)
       score0 POSITIVE_KEYWORDS"

definition negativeScore :: "jsstring \<Rightarrow> int \<Rightarrow> int" where
  "negativeScore lower score0 =
     foldl (\<lambda>score nk. if str_includes lower nk then score - 1 else score)
       score0 NEGATIVE_KEYWORDS"

text \<open>
  \<open>Math.floor(Math.random() * 7) - 2\<close>, for the value \<open>u\<close> of \<open>Math.random()\<close>, a
  number in [0, 1). The product is taken in the reals; rounded to a double it stays below
  7 as well, so the values the factor can take are the same.
\<close>

definition randomFactor :: "real \<Rightarrow> int" where
  "randomFactor u = \<lfloor>u * 7\<rfloor> - 2"

definition localHeuristic :: "runtime \<Rightarrow> real \<Rightarrow> jsstring \<Rightarrow> evalResult" where
  "localHeuristic rt u decision =
     (let lower = toLowerCase rt decision in
      if hasViolationKeyword lower then violationResult
      else
        (let score = negativeScore lower (positiveScore lower 0);
             change0 = (score * 50) + (randomFactor u * 20)
         in \<lparr>violation = False, change = clamp (of_int change0) (- 150) 300,
             comment = JStr HEURISTIC_COMMENT, tips = []\<rparr>))"

subsection \<open>getApiKeys, getClientForKey, callGemini (lines 166-214)\<close>

text \<open>\<open>[...].filter(Boolean)\<close> on values that are strings or undefined.\<close>

fun filterBoolean :: "jsstring option list \<Rightarrow> jsstring list" where
  "filterBoolean [] = []"
| "filterBoolean (None # vs) = filterBoolean vs"
| "filterBoolean (Some s # vs) = (if s = [] then filterBoolean vs else s # filterBoolean vs)"

definition getApiKeys :: "environment \<Rightarrow> jserror + jsstring list" where
  "getApiKeys env =
     (let listEnv = (case GEMINI_API_KEYS env of None \<Rightarrow> [] | Some s \<Rightarrow> s);
          list = filter (\<lambda>k. k \<noteq> []) (map trim (split_comma listEnv));
          singles = filterBoolean [GEMINI_API_KEY env, API_KEY env, GOOGLE_API_KEY env];
          combined = take 6 (filter (\<lambda>k. k \<noteq> []) (list @ singles))
      in if combined = []
         then Inl (Error ''API_KEY / GOOGLE_API_KEY / GEMINI_API_KEY / GEMINI_API_KEYS is not set'')
         else Inr combined)"

definition getClientForKey :: "runtime \<Rightarrow> jsstring \<Rightarrow> world \<Rightarrow> (jserror + client) \<times> world" where
  "getClientForKey rt apiKey w =
     (case aiClientCache w apiKey of
        Some cached \<Rightarrow> (Inr cached, w)
      | None \<Rightarrow>
          (case sdk_module rt of
             ImportRejected err \<Rightarrow> (Inl err, w)
           | ImportNoConstructor \<Rightarrow>
               (Inl (Error ''Missing dependency @google/genai. Run: npm install @google/genai''), w)
           | _ \<Rightarrow>
               (let client = GoogleGenAI apiKey
                in (Inr client, w\<lparr>aiClientCache := (aiClientCache w)(apiKey \<mapsto> client)\<rparr>))))"

text \<open>The body of the \<open>try\<close> of lines 200-206 for one key.\<close>

definition attemptKey :: "runtime \<Rightarrow> jsstring \<Rightarrow> jsstring \<Rightarrow> world \<Rightarrow> (jserror + response) \<times> world" where
  "attemptKey rt prompt key w =
     (case getClientForKey rt key w of
        (Inl err, w1) \<Rightarrow> (Inl err, w1)
      | (Inr client, w1) \<Rightarrow> (generateContent rt (attempts w1) client prompt, w1))"

definition recordAttempt :: "jsstring \<Rightarrow> jserror + response \<Rightarrow> world \<Rightarrow> world" where
  "recordAttempt key outcome w = w\<lparr>attempts := attempts w @ [(key, outcome)]\<rparr>"

text \<open>The loop of lines 199-212 and the final \<open>throw\<close> of line 213.\<close>

fun tryKeys :: "runtime \<Rightarrow> jsstring \<Rightarrow> jsstring list \<Rightarrow> jserror option \<Rightarrow> world
    \<Rightarrow> (jserror + response) \<times> world" where
  "tryKeys rt prompt [] lastError w =
     (case lastError of
        Some err \<Rightarrow> (Inl err, w)
      | None \<Rightarrow> (Inl (Error ''Gemini call failed for all configured API keys.''), w))"
| "tryKeys rt prompt (key # keys) lastError w =
     (case attemptKey rt prompt key w of
        (Inr result, w1) \<Rightarrow> (Inr result, recordAttempt key (Inr result) w1)
      | (Inl err, w1) \<Rightarrow> tryKeys rt prompt keys (Some err) (recordAttempt key (Inl err) w1))"

definition callGemini :: "runtime \<Rightarrow> jsstring \<Rightarrow> evalContext \<Rightarrow> world \<Rightarrow> (jserror + response) \<times> world" where
  "callGemini rt decision ctx w =
     (let prompt = buildGeminiPrompt rt decision ctx in
      case getApiKeys (process_env rt) of
        Inl err \<Rightarrow> (Inl err, w)
      | Inr apiKeys \<Rightarrow> tryKeys rt prompt apiKeys None w)"

subsection \<open>parseGeminiResult (lines 216-240)\<close>

fun join_space :: "jsstring list \<Rightarrow> jsstring" where
  "join_space [] = []"
| "join_space [x] = x"
| "join_space (x # y # ys) = x @ 32 # join_space (y # ys)"

definition partText :: "jsstring option \<Rightarrow> jsstring" where
  "partText p = (case p of None \<Rightarrow> [] | Some t \<Rightarrow> t)"

definition extractText :: "response \<Rightarrow> jserror + jsstring" where
  "extractText resp =
     (case resp of
        LazyText r \<Rightarrow> r
      | Candidates parts \<Rightarrow> Inr (trim (join_space (map partText parts)))
      | PlainString s \<Rightarrow> Inr s
      | Unrecognised \<Rightarrow> Inr [])"

text \<open>
  \<open>text.match(/\{[\s\S]*\}/)\<close>: from the first \<open>{\<close> (code unit 123) to the last
  \<open>}\<close> (125) after it; no match when there is no such pair.
\<close>

definition jsonMatch :: "jsstring \<Rightarrow> jsstring option" where
  "jsonMatch text =
     (case dropWhile (\<lambda>c. c \<noteq> 123) text of
        [] \<Rightarrow> None
      | brace # rest \<Rightarrow>
          (case dropWhile (\<lambda>c. c \<noteq> 125) (rev rest) of
             [] \<Rightarrow> None
           | c # cs \<Rightarrow> Some (brace # rev (c # cs))))"

text \<open>
  Reading a property of a parsed value other than \<open>null\<close>: an object gives its own
  property (\<open>JObj\<close> lists each key once), any other value gives \<open>undefined\<close>
  for the three names read here.
\<close>

fun getProp :: "json \<Rightarrow> jsstring \<Rightarrow> json option" where
  "getProp (JObj kvs) name = map_of kvs name"
| "getProp v name = None"

definition PROP_change :: jsstring where
  "PROP_change = [99, 104, 97, 110, 103, 101]"

definition PROP_comment :: jsstring where
  "PROP_comment = [99, 111, 109, 109, 101, 110, 116]"

definition PROP_tips :: jsstring where
  "PROP_tips = [116, 105, 112, 115]"

record parsedResult =
  p_change :: real
  p_comment :: json
  p_tips :: "json list"

definition readFields :: "json \<Rightarrow> parsedResult" where
  "readFields parsed =
     \<lparr>p_change = (case getProp parsed PROP_change of Some (JNum x) \<Rightarrow> x | _ \<Rightarrow> 0),
      p_comment = (case getProp parsed PROP_comment of
                     Some v \<Rightarrow> if truthy v then v else JStr []
                   | None \<Rightarrow> JStr []),
      p_tips = (case getProp parsed PROP_tips of Some (JArr xs) \<Rightarrow> xs | _ \<Rightarrow> [])\<rparr>"

definition parseGeminiResult :: "runtime \<Rightarrow> response \<Rightarrow> jserror + parsedResult" where
  "parseGeminiResult rt resp =
     (case extractText resp of
        Inl err \<Rightarrow> Inl err
      | Inr text0 \<Rightarrow>
          (let text = trim text0 in
           if text = [] then Inl (Error ''Empty response from Gemini'')
           else
             (let jsonText = (case jsonMatch text of Some m \<Rightarrow> m | None \<Rightarrow> text) in
              case JSON_parse rt jsonText of
                None \<Rightarrow> Inl (Error ''Gemini response not in JSON format'')
              | Some parsed \<Rightarrow>
                  if parsed = JNull
                  then Inl (TypeError ''Cannot read properties of null'')
                  else Inr (readFields parsed))))"

subsection \<open>evaluateDecision (lines 260-283)\<close>

text \<open>The body of the \<open>try\<close> block, lines 268-278.\<close>

definition scoreWithGemini :: "runtime \<Rightarrow> jsstring \<Rightarrow> evalContext \<Rightarrow> world
    \<Rightarrow> (jserror + evalResult) \<times> world" where
  "scoreWithGemini rt decision ctx w =
     (case callGemini rt decision ctx w of
        (Inl err, w1) \<Rightarrow> (Inl err, w1)
      | (Inr geminiResp, w1) \<Rightarrow>
          (case parseGeminiResult rt geminiResp of
             Inl err \<Rightarrow> (Inl err, w1)
           | Inr parsed \<Rightarrow>
               if p_change parsed \<le> - 10000
               then (Inr \<lparr>violation = True, change = - 10000,
                          comment = (if truthy (p_comment parsed) then p_comment parsed
                                     else JStr VIOLATION_COMMENT),
                          tips = p_tips parsed\<rparr>, w1)
               else (Inr \<lparr>violation = False, change = clamp (p_change parsed) (- 400) 400,
                          comment = (if truthy (p_comment parsed) then p_comment parsed
                                     else JStr []),
                          tips = p_tips parsed\<rparr>, w1)))"

definition evaluateDecision :: "runtime \<Rightarrow> real \<Rightarrow> jsstring \<Rightarrow> evalContext \<Rightarrow> world
    \<Rightarrow> (jserror + evalResult) \<times> world" where
  "evaluateDecision rt u decision ctx w =
     (let lower = toLowerCase rt decision in
      if hasViolationKeyword lower then (Inr violationResult, w)
      else
        (case scoreWithGemini rt decision ctx w of
           (Inr result, w1) \<Rightarrow> (Inr result, w1)
         | (Inl err, w1) \<Rightarrow> (Inr (localHeuristic rt u decision), w1)))"

subsection \<open>The POST /game handler (lines 602-607 and 674-715)\<close>

text \<open>The \<open>change\<close> of a history entry: the text "Vi pham" (line 694) or a number.\<close>

datatype historyChange = ChangeText jsstring | ChangeNumber real

definition VI_PHAM :: jsstring where
  "VI_PHAM = [86, 105, 32, 112, 104, 7841, 109]"

record roundRecord =
  rr_round :: int
  rr_decision :: jsstring
  rr_change :: historyChange
  rr_comment :: json
  rr_tips :: "json list option"

record game =
  religion :: jsstring
  followers :: real
  round_no :: int
  history :: "roundRecord list"
  lastFeedback :: "evalResult option"

text \<open>A session: \<open>session.username\<close> and \<open>session.game\<close> (null when no game is on).\<close>

record session =
  username :: jsstring
  current_game :: "game option"

datatype reply = Redirect string | Status500

text \<open>The game that POST /start and POST /create store (lines 550-555 and 589-594).\<close>

definition newGame :: "jsstring \<Rightarrow> game" where
  "newGame name =
     \<lparr>religion = name, followers = 100, round_no = 1, history = [], lastFeedback = None\<rparr>"

text \<open>Lines 692-707: what the handler does with the evaluation result.\<close>

definition applyResult :: "game \<Rightarrow> jsstring \<Rightarrow> evalResult \<Rightarrow> game \<times> reply" where
  "applyResult g decision result =
     (if violation result then
        (g\<lparr>followers := 0,
           history := history g @
             [\<lparr>rr_round = round_no g, rr_decision = decision, rr_change = ChangeText VI_PHAM,
               rr_comment = comment result, rr_tips = None\<rparr>],
           lastFeedback := Some result,
           round_no := 11\<rparr>,
         Redirect ''/end'')
      else
        (let raised = followers g + change result;
             kept = (if raised < 0 then 0 else raised)
         in (g\<lparr>followers := kept,
               history := history g @
                 [\<lparr>rr_round = round_no g, rr_decision = decision,
                   rr_change = ChangeNumber (change result),
                   rr_comment = comment result, rr_tips = Some (tips result)\<rparr>],
               lastFeedback := Some result,
               round_no := round_no g + 1\<rparr>,
             Redirect ''/game'')))"

text \<open>
  The handler for POST /game. \<open>sess\<close> is the session the cookie resolves to (line 348),
  \<open>formDecision\<close> the field \<open>decision\<close> of the posted form, absent or a string.
  The result is the reply, the session as the handler leaves it, and the world.
\<close>

definition postGame :: "runtime \<Rightarrow> real \<Rightarrow> session option \<Rightarrow> jsstring option \<Rightarrow> world
    \<Rightarrow> reply \<times> session option \<times> world" where
  "postGame rt u sess formDecision w =
     (case sess of
        None \<Rightarrow> (Redirect ''/'', sess, w)
      | Some s \<Rightarrow>
          if username s = [] then (Redirect ''/'', sess, w)
          else
            (case current_game s of
               None \<Rightarrow> (Redirect ''/'', sess, w)
             | Some g \<Rightarrow>
                 (let decision = trim (case formDecision of None \<Rightarrow> [] | Some d \<Rightarrow> d) in
                  if decision = [] then (Redirect ''/game'', sess, w)
                  else
                    (case evaluateDecision rt u decision
                            \<lparr>ctx_religion = religion g, ctx_followers = followers g,
                             ctx_round = round_no g\<rparr> w of
                       (Inl err, w1) \<Rightarrow> (Status500, sess, w1)
                     | (Inr result, w1) \<Rightarrow>
                         (case applyResult g decision result of
                            (g1, answer) \<Rightarrow>
                              (answer, Some (s\<lparr>current_game := Some g1\<rparr>), w1))))))"

subsection \<open>The initial state and concrete runtimes for the examples\<close>

text \<open>Line 7: the client cache starts empty; nothing has been tried yet.\<close>

definition initial_world :: world where
  "initial_world = \<lparr>aiClientCache = Map.empty, attempts = []\<rparr>"

text \<open>
  \<open>String.prototype.toLowerCase\<close> on ASCII, Latin-1 and the letters of the Vietnamese
  alphabet (A-breve, D-stroke, I-tilde, U-tilde, O-horn, U-horn and U+1EA0..U+1EF9),
  where it maps code unit to code unit. The examples use it; no theorem depends on it.
\<close>

definition toLowerCase_vi :: "jsstring \<Rightarrow> jsstring" where
  "toLowerCase_vi s =
     map (\<lambda>c. if (65 \<le> c \<and> c \<le> 90) \<or> (192 \<le> c \<and> c \<le> 222 \<and> c \<noteq> 215) then c + 32
              else if c \<in> {258, 272, 296, 360, 416, 431} \<or> (7840 \<le> c \<and> c \<le> 7929 \<and> even c)
              then c + 1
              else c) s"

text \<open>
  Three response texts: \<^verbatim>\<open>{"change": 120, "comment": "ok", "tips": ["a"]}\<close>,
  \<^verbatim>\<open>{"change": -10000, "comment": "violated"}\<close> and \<^verbatim>\<open>null\<close>.
\<close>

definition SCORED_TEXT :: jsstring where
  "SCORED_TEXT =
     [123, 34, 99, 104, 97, 110, 103, 101, 34, 58, 32, 49, 50, 48, 44, 32, 34, 99, 111,
      109, 109, 101, 110, 116, 34, 58, 32, 34, 111, 107, 34, 44, 32, 34, 116, 105, 112,
      115, 34, 58, 32, 91, 34, 97, 34, 93, 125]"

definition VIOLATED_TEXT :: jsstring where
  "VIOLATED_TEXT =
     [123, 34, 99, 104, 97, 110, 103, 101, 34, 58, 32, 45, 49, 48, 48, 48, 48, 44, 32, 34,
      99, 111, 109, 109, 101, 110, 116, 34, 58, 32, 34, 118, 105, 111, 108, 97, 116, 101,
      100, 34, 125]"

definition NULL_TEXT :: jsstring where
  "NULL_TEXT = [110, 117, 108, 108]"

text \<open>
  A fourth response text, a violation with tips:
  \<^verbatim>\<open>{"change": -10000, "comment": "violated", "tips": ["a"]}\<close>.
\<close>

definition VIOLATED_TIPS_TEXT :: jsstring where
  "VIOLATED_TIPS_TEXT =
     [123, 34, 99, 104, 97, 110, 103, 101, 34, 58, 32, 45, 49, 48, 48, 48, 48, 44, 32, 34,
      99, 111, 109, 109, 101, 110, 116, 34, 58, 32, 34, 118, 105, 111, 108, 97, 116, 101,
      100, 34, 44, 32, 34, 116, 105, 112, 115, 34, 58, 32, 91, 34, 97, 34, 93, 125]"

text \<open>
  The values of \<open>JSON.parse\<close> on these four texts. Every other text counts as a
  syntax error here.
\<close>

definition sample_JSON_parse :: "jsstring \<Rightarrow> json option" where
  "sample_JSON_parse =
     map_of
      [(SCORED_TEXT,
        JObj [([99, 104, 97, 110, 103, 101], JNum 120),
              ([99, 111, 109, 109, 101, 110, 116], JStr [111, 107]),
              ([116, 105, 112, 115], JArr [JStr [97]])]),
       (VIOLATED_TEXT,
        JObj [([99, 104, 97, 110, 103, 101], JNum (- 10000)),
              ([99, 111, 109, 109, 101, 110, 116], JStr [118, 105, 111, 108, 97, 116, 101, 100])]),
       (NULL_TEXT, JNull),
       (VIOLATED_TIPS_TEXT,
        JObj [([99, 104, 97, 110, 103, 101], JNum (- 10000)),
              ([99, 111, 109, 109, 101, 110, 116], JStr [118, 105, 111, 108, 97, 116, 101, 100]),
              ([116, 105, 112, 115], JArr [JStr [97]])])]"

text \<open>The environment with \<open>GEMINI_API_KEYS="k1, k2"\<close>, and the one with no credential.\<close>

definition two_key_env :: environment where
  "two_key_env =
     \<lparr>GEMINI_API_KEYS = Some [107, 49, 44, 32, 107, 50], GEMINI_API_KEY = None,
      API_KEY = None, GOOGLE_API_KEY = None\<rparr>"

definition empty_env :: environment where
  "empty_env =
     \<lparr>GEMINI_API_KEYS = None, GEMINI_API_KEY = None, API_KEY = None, GOOGLE_API_KEY = None\<rparr>"

text \<open>The environment with \<open>GEMINI_API_KEYS="k1"\<close> and \<open>GEMINI_API_KEY="k1"\<close>.\<close>

definition duplicate_key_env :: environment where
  "duplicate_key_env =
     \<lparr>GEMINI_API_KEYS = Some [107, 49], GEMINI_API_KEY = Some [107, 49],
      API_KEY = None, GOOGLE_API_KEY = None\<rparr>"

text \<open>A backend on which key \<open>k1\<close> fails and every other key answers \<open>resp\<close>.\<close>

definition second_key_backend :: "response \<Rightarrow> trace \<Rightarrow> client \<Rightarrow> jsstring \<Rightarrow> jserror + response" where
  "second_key_backend resp tried cl prompt =
     (if cl = GoogleGenAI [107, 49] then Inl (Error ''503 Service Unavailable'') else Inr resp)"

text \<open>A backend on which every call fails.\<close>

definition failing_backend :: "trace \<Rightarrow> client \<Rightarrow> jsstring \<Rightarrow> jserror + response" where
  "failing_backend tried cl prompt = Inl (Error ''429 Too Many Requests'')"

definition sample_runtime :: "environment \<Rightarrow> (trace \<Rightarrow> client \<Rightarrow> jsstring \<Rightarrow> jserror + response)
    \<Rightarrow> runtime" where
  "sample_runtime env backend =
     \<lparr>toLowerCase = toLowerCase_vi, JSON_parse = sample_JSON_parse, process_env = env,
      sdk_module = RequireOk, generateContent = backend,
      buildGeminiPrompt = (\<lambda>decision ctx. decision)\<rparr>"

text \<open>
  A session whose game has ended by a violation in round 1: the state POST /game leaves
  when the first decision of a new game is "bao luc".
\<close>

definition violated_session :: session where
  "violated_session =
     \<lparr>username = [97],
      current_game = Some
        \<lparr>religion = [97], followers = 0, round_no = 11,
         history = [\<lparr>rr_round = 1, rr_decision = [98, 7841, 111, 32, 108, 7921, 99],
                     rr_change = ChangeText VI_PHAM, rr_comment = JStr VIOLATION_COMMENT,
                     rr_tips = None\<rparr>],
         lastFeedback = Some violationResult\<rparr>\<rparr>"

section \<open>Properties\<close>

subsection \<open>Strings, clamping and keyword counts\<close>

text \<open>\<open>str_includes\<close> is the substring relation.\<close>

lemma str_includes_iff: "str_includes s kw \<longleftrightarrow> (\<exists>pre post. s = pre @ kw @ post)"
proof (induction s)
  case Nil
  then show ?case by auto
next
  case (Cons c cs)
  show ?case
  proof
    assume "str_includes (c # cs) kw"
    then consider "prefix kw (c # cs)" | "str_includes cs kw" by auto
    then show "\<exists>pre post. c # cs = pre @ kw @ post"
    proof cases
      case 1
      then obtain post where "c # cs = kw @ post" by (auto simp: prefix_def)
      then have "c # cs = [] @ kw @ post" by simp
      then show ?thesis by blast
    next
      case 2
      with Cons.IH obtain pre post where "cs = pre @ kw @ post" by blast
      then have "c # cs = (c # pre) @ kw @ post" by simp
      then show ?thesis by blast
    qed
  next
    assume "\<exists>pre post. c # cs = pre @ kw @ post"
    then obtain pre post where eq: "c # cs = pre @ kw @ post" by blast
    show "str_includes (c # cs) kw"
    proof (cases pre)
      case Nil
      with eq have "prefix kw (c # cs)" by (simp add: prefix_def)
      then show ?thesis by simp
    next
      case (Cons p ps)
      with eq have "cs = ps @ kw @ post" by simp
      with Cons.IH have "str_includes cs kw" by blast
      then show ?thesis by simp
    qed
  qed
qed

lemma clamp_bounds: "lo \<le> hi \<Longrightarrow> lo \<le> clamp num lo hi \<and> clamp num lo hi \<le> hi"
  by (simp add: clamp_def)


lemma foldl_count_down:
  "foldl (\<lambda>score k. if P k then score - 1 else score) (s::int) ks = s - int (length (filter P ks))"
  by (induction ks arbitrary: s) auto


lemma negativeScore_eq:
  "negativeScore lower s = s - int (length (filter (str_includes lower) NEGATIVE_KEYWORDS))"
  unfolding negativeScore_def by (rule foldl_count_down)


subsection \<open>The key pool, the client cache and the loop over the keys\<close>

lemma if_Inl_Inr: "(if b then Inl e else Inr x) = Inr y \<Longrightarrow> \<not> b \<and> x = y"
  by (simp split: if_splits)

lemma take_filter_props:
  "take n (filter P xs) = keys \<Longrightarrow> length keys \<le> n \<and> (\<forall>k \<in> set keys. P k)"
  by (auto dest: in_set_takeD)

lemma getApiKeys_pool:
  assumes "getApiKeys env = Inr keys"
  shows "keys \<noteq> [] \<and> length keys \<le> 6 \<and> [] \<notin> set keys"
proof -
  note unfolded = assms[unfolded getApiKeys_def Let_def, THEN if_Inl_Inr]
  from unfolded have ne: "keys \<noteq> []" by blast
  from unfolded have "length keys \<le> 6 \<and> (\<forall>k \<in> set keys. k \<noteq> [])"
    by (intro take_filter_props) blast
  with ne show ?thesis by blast
qed

lemma getClientForKey_hit:
  "aiClientCache w k = Some c \<Longrightarrow> getClientForKey rt k w = (Inr c, w)"
  by (simp add: getClientForKey_def)

text \<open>
  What \<open>getClientForKey\<close> hands out depends on the cache entry of the key and on the
  SDK only; what it stores is the handle it hands out.
\<close>

lemma getClientForKey_result:
  "fst (getClientForKey rt k w) =
     (case aiClientCache w k of
        Some c \<Rightarrow> Inr c
      | None \<Rightarrow>
          (case sdk_module rt of
             ImportRejected err \<Rightarrow> Inl err
           | ImportNoConstructor \<Rightarrow>
               Inl (Error ''Missing dependency @google/genai. Run: npm install @google/genai'')
           | _ \<Rightarrow> Inr (GoogleGenAI k)))"
  by (simp add: getClientForKey_def Let_def split: option.splits sdk_load.splits)

lemma getClientForKey_stores:
  assumes "getClientForKey rt key w = (r, w1)"
  shows "attempts w1 = attempts w
     \<and> aiClientCache w1 key = (case r of Inl err \<Rightarrow> None | Inr cl \<Rightarrow> Some cl)
     \<and> (\<forall>k. k \<noteq> key \<longrightarrow> aiClientCache w1 k = aiClientCache w k)"
  using assms
  by (auto simp: getClientForKey_def Let_def split: option.splits sdk_load.splits)

lemma getClientForKey_stable:
  assumes "getClientForKey rt key w = (r, w1)"
  shows "fst (getClientForKey rt k w1) = fst (getClientForKey rt k w)"
proof (cases "k = key")
  case True
  from assms have r: "r = fst (getClientForKey rt key w)" by simp
  from getClientForKey_stores[OF assms]
  have "aiClientCache w1 key = (case r of Inl err \<Rightarrow> None | Inr cl \<Rightarrow> Some cl)" by simp
  with r True show ?thesis
    by (auto simp: getClientForKey_result split: option.splits sdk_load.splits sum.splits)
next
  case False
  with getClientForKey_stores[OF assms] have "aiClientCache w1 k = aiClientCache w k" by simp
  then show ?thesis by (simp add: getClientForKey_result)
qed

lemma attemptKey_effect:
  assumes "attemptKey rt p key w = (o1, w1)"
  shows "attempts w1 = attempts w
     \<and> aiClientCache w1 key =
         (case fst (getClientForKey rt key w) of Inl err \<Rightarrow> None | Inr cl \<Rightarrow> Some cl)
     \<and> (\<forall>k. k \<noteq> key \<longrightarrow> aiClientCache w1 k = aiClientCache w k)
     \<and> (\<forall>k. fst (getClientForKey rt k w1) = fst (getClientForKey rt k w))
     \<and> o1 = (case fst (getClientForKey rt key w) of
               Inl err \<Rightarrow> Inl err
             | Inr cl \<Rightarrow> generateContent rt (attempts w) cl p)"
proof -
  obtain rc wc where g: "getClientForKey rt key w = (rc, wc)"
    by (cases "getClientForKey rt key w")
  from assms g have w1: "w1 = wc" by (auto simp: attemptKey_def split: sum.splits)
  from getClientForKey_stores[OF g] have tr: "attempts wc = attempts w" by simp
  from assms g tr have out: "o1 = (case rc of
               Inl err \<Rightarrow> Inl err
             | Inr cl \<Rightarrow> generateContent rt (attempts w) cl p)"
    by (auto simp: attemptKey_def split: sum.splits)
  from getClientForKey_stores[OF g] getClientForKey_stable[OF g] g w1 out
  show ?thesis by simp
qed

lemma recordAttempt_cache:
  "aiClientCache (recordAttempt key out w) = aiClientCache w"
  by (simp add: recordAttempt_def)

lemma recordAttempt_client:
  "fst (getClientForKey rt k (recordAttempt key out w)) = fst (getClientForKey rt k w)"
  by (simp add: getClientForKey_result recordAttempt_cache)

text \<open>
  One run of the loop: the outcomes \<open>outs\<close> of the tries, one per key of a prefix of
  the keys; each outcome is the SDK's failure to give a client, or the backend's answer to
  the client of that key on the trace so far; every tried key's client is in the cache
  afterwards, and no other entry has changed.
\<close>

lemma tryKeys_run:
  "tryKeys rt p keys lastError w = (res, w') \<Longrightarrow>
     \<exists>outs. length outs \<le> length keys
       \<and> attempts w' = attempts w @ zip (take (length outs) keys) outs
       \<and> (\<forall>out \<in> set (butlast outs). isl out)
       \<and> (outs \<noteq> [] \<longrightarrow> last outs = res)
       \<and> (outs = [] \<longrightarrow> keys = [])
       \<and> (isl res \<longrightarrow> length outs = length keys)
       \<and> (\<forall>i < length outs. outs ! i =
             (case fst (getClientForKey rt (keys ! i) w) of
                Inl err \<Rightarrow> Inl err
              | Inr cl \<Rightarrow>
                  generateContent rt (attempts w @ zip (take i keys) (take i outs)) cl p))
       \<and> (\<forall>k \<in> set (take (length outs) keys). aiClientCache w' k =
             (case fst (getClientForKey rt k w) of Inl err \<Rightarrow> None | Inr cl \<Rightarrow> Some cl))
       \<and> (\<forall>k. k \<notin> set (take (length outs) keys) \<longrightarrow> aiClientCache w' k = aiClientCache w k)"
proof (induction keys arbitrary: lastError w)
  case Nil
  then have "w' = w \<and> isl res" by (auto split: option.splits)
  then show ?case by (intro exI[of _ "[]"]) simp
next
  case (Cons key keys)
  obtain o1 w1 where a: "attemptKey rt p key w = (o1, w1)" by (cases "attemptKey rt p key w")
  note e = attemptKey_effect[OF a]
  from e have tr: "attempts w1 = attempts w" by simp
  from e have stored: "aiClientCache w1 key =
      (case fst (getClientForKey rt key w) of Inl err \<Rightarrow> None | Inr cl \<Rightarrow> Some cl)" by simp
  from e have others: "\<And>k. k \<noteq> key \<Longrightarrow> aiClientCache w1 k = aiClientCache w k" by simp
  from e have stable: "\<And>k. fst (getClientForKey rt k w1) = fst (getClientForKey rt k w)"
    by simp
  from e have first: "o1 = (case fst (getClientForKey rt key w) of
               Inl err \<Rightarrow> Inl err
             | Inr cl \<Rightarrow> generateContent rt (attempts w) cl p)" by simp
  show ?case
  proof (cases o1)
    case (Inr result)
    with Cons.prems a have r: "res = o1" and w': "w' = recordAttempt key o1 w1" by auto
    from w' tr r have 2: "attempts w' = attempts w @ zip (take 1 (key # keys)) [res]"
      by (simp add: recordAttempt_def)
    from r Inr have 3: "\<not> isl res" by simp
    have 4: "\<forall>i < length [res]. [res] ! i =
             (case fst (getClientForKey rt ((key # keys) ! i) w) of
                Inl err \<Rightarrow> Inl err
              | Inr cl \<Rightarrow>
                  generateContent rt
                    (attempts w @ zip (take i (key # keys)) (take i [res])) cl p)"
      using r first by (simp split: sum.splits)
    from w' stored have 5: "aiClientCache w' key =
      (case fst (getClientForKey rt key w) of Inl err \<Rightarrow> None | Inr cl \<Rightarrow> Some cl)"
      by (simp add: recordAttempt_cache)
    from w' others have 6: "\<forall>k. k \<noteq> key \<longrightarrow> aiClientCache w' k = aiClientCache w k"
      by (simp add: recordAttempt_cache)
    have 7: "\<forall>k \<in> set (take (length [res]) (key # keys)). aiClientCache w' k =
             (case fst (getClientForKey rt k w) of Inl err \<Rightarrow> None | Inr cl \<Rightarrow> Some cl)"
      using 5 by simp
    have 8: "\<forall>k. k \<notin> set (take (length [res]) (key # keys)) \<longrightarrow>
               aiClientCache w' k = aiClientCache w k"
      using 6 by simp
    have 9: "length [res] \<le> length (key # keys)"
      "attempts w' = attempts w @ zip (take (length [res]) (key # keys)) [res]"
      "\<forall>out \<in> set (butlast [res]). isl out"
      "[res] \<noteq> [] \<longrightarrow> last [res] = res"
      "[res] = [] \<longrightarrow> key # keys = []"
      "isl res \<longrightarrow> length [res] = length (key # keys)"
      using 2 3 by simp_all
    from 9 4 7 8 show ?thesis by (intro exI[of _ "[res]"]) blast
  next
    case (Inl err)
    let ?w2 = "recordAttempt key (Inl err) w1"
    from Inl Cons.prems a have t: "tryKeys rt p keys (Some err) ?w2 = (res, w')" by simp
    have tr2: "attempts ?w2 = attempts w @ [(key, Inl err)]"
      using tr by (simp add: recordAttempt_def)
    have cl2: "\<And>k. fst (getClientForKey rt k ?w2) = fst (getClientForKey rt k w)"
      using stable by (simp add: recordAttempt_client)
    from Cons.IH[OF t] obtain outs where o:
      "length outs \<le> length keys"
      "attempts w' = attempts ?w2 @ zip (take (length outs) keys) outs"
      "\<forall>out \<in> set (butlast outs). isl out"
      "outs \<noteq> [] \<longrightarrow> last outs = res"
      "outs = [] \<longrightarrow> keys = []"
      "isl res \<longrightarrow> length outs = length keys"
      "\<forall>i < length outs. outs ! i =
             (case fst (getClientForKey rt (keys ! i) ?w2) of
                Inl err \<Rightarrow> Inl err
              | Inr cl \<Rightarrow>
                  generateContent rt (attempts ?w2 @ zip (take i keys) (take i outs)) cl p)"
      "\<forall>k \<in> set (take (length outs) keys). aiClientCache w' k =
             (case fst (getClientForKey rt k ?w2) of Inl err \<Rightarrow> None | Inr cl \<Rightarrow> Some cl)"
      "\<forall>k. k \<notin> set (take (length outs) keys) \<longrightarrow> aiClientCache w' k = aiClientCache ?w2 k"
      by blast
    have res_nil: "keys = [] \<Longrightarrow> res = Inl err" using t by simp
    let ?outs = "Inl err # outs"
    have 1: "length ?outs \<le> length (key # keys)" using o(1) by simp
    have 2: "attempts w' = attempts w @ zip (take (length ?outs) (key # keys)) ?outs"
      using o(2) tr2 by simp
    have 3: "\<forall>out \<in> set (butlast ?outs). isl out" using o(3) by auto
    have 4: "last ?outs = res" using o(4) o(5) res_nil by (cases "outs = []") auto
    have 5: "isl res \<longrightarrow> length ?outs = length (key # keys)" using o(6) by simp
    have 6: "\<forall>i < length ?outs. ?outs ! i =
             (case fst (getClientForKey rt ((key # keys) ! i) w) of
                Inl err \<Rightarrow> Inl err
              | Inr cl \<Rightarrow>
                  generateContent rt
                    (attempts w @ zip (take i (key # keys)) (take i ?outs)) cl p)"
    proof (intro allI impI)
      fix i assume i: "i < length ?outs"
      show "?outs ! i =
             (case fst (getClientForKey rt ((key # keys) ! i) w) of
                Inl err \<Rightarrow> Inl err
              | Inr cl \<Rightarrow>
                  generateContent rt
                    (attempts w @ zip (take i (key # keys)) (take i ?outs)) cl p)"
      proof (cases i)
        case 0
        with first Inl show ?thesis by (simp split: sum.splits)
      next
        case (Suc j)
        with i have "j < length outs" by simp
        with o(7) have "outs ! j =
             (case fst (getClientForKey rt (keys ! j) ?w2) of
                Inl err \<Rightarrow> Inl err
              | Inr cl \<Rightarrow>
                  generateContent rt (attempts ?w2 @ zip (take j keys) (take j outs)) cl p)"
          by blast
        with Suc tr2 cl2 show ?thesis by (simp split: sum.splits)
      qed
    qed
    have 7: "\<forall>k \<in> set (take (length ?outs) (key # keys)). aiClientCache w' k =
             (case fst (getClientForKey rt k w) of Inl err \<Rightarrow> None | Inr cl \<Rightarrow> Some cl)"
    proof
      fix k assume k: "k \<in> set (take (length ?outs) (key # keys))"
      show "aiClientCache w' k =
             (case fst (getClientForKey rt k w) of Inl err \<Rightarrow> None | Inr cl \<Rightarrow> Some cl)"
      proof (cases "k \<in> set (take (length outs) keys)")
        case True
        with o(8) cl2 show ?thesis by simp
      next
        case False
        with k have "k = key" by simp
        moreover from False o(9) have "aiClientCache w' k = aiClientCache w1 k"
          by (simp add: recordAttempt_cache)
        ultimately show ?thesis using stored by simp
      qed
    qed
    have 8: "\<forall>k. k \<notin> set (take (length ?outs) (key # keys)) \<longrightarrow>
               aiClientCache w' k = aiClientCache w k"
      using o(9) others by (simp add: recordAttempt_cache)
    from 1 2 3 4 5 6 7 8 show ?thesis by (intro exI[of _ ?outs]) simp
  qed
qed

subsection \<open>Every evaluation returns a result in range\<close>

lemma scoreWithGemini_range:
  "scoreWithGemini rt decision ctx w = (Inr r, w1) \<Longrightarrow>
     (violation r \<longrightarrow> change r = - 10000)
     \<and> (\<not> violation r \<longrightarrow> - 400 \<le> change r \<and> change r \<le> 400)"
  by (auto simp: scoreWithGemini_def clamp_def split: prod.splits sum.splits if_splits)

lemma localHeuristic_range:
  "(violation (localHeuristic rt u decision) \<longrightarrow> change (localHeuristic rt u decision) = - 10000)
   \<and> (\<not> violation (localHeuristic rt u decision) \<longrightarrow>
        - 150 \<le> change (localHeuristic rt u decision) \<and> change (localHeuristic rt u decision) \<le> 300)"
  by (simp add: localHeuristic_def Let_def violationResult_def clamp_def)

lemma evaluateDecision_cases:
  "evaluateDecision rt u decision ctx w =
     (if hasViolationKeyword (toLowerCase rt decision) then (Inr violationResult, w)
      else (case fst (scoreWithGemini rt decision ctx w) of
              Inr result \<Rightarrow> Inr result
            | Inl err \<Rightarrow> Inr (localHeuristic rt u decision),
            snd (scoreWithGemini rt decision ctx w)))"
  by (simp add: evaluateDecision_def Let_def split: prod.splits sum.splits)

lemma evaluateDecision_returns:
  "\<exists>result w1. evaluateDecision rt u decision ctx w = (Inr result, w1)"
  by (simp add: evaluateDecision_cases split: sum.splits)

lemma evaluateDecision_range:
  assumes "evaluateDecision rt u decision ctx w = (Inr r, w1)"
  shows "(violation r \<longrightarrow> change r = - 10000)
     \<and> (\<not> violation r \<longrightarrow> - 400 \<le> change r \<and> change r \<le> 400)"
proof (cases "hasViolationKeyword (toLowerCase rt decision)")
  case True
  with assms have "r = violationResult" by (simp add: evaluateDecision_def)
  then show ?thesis by (simp add: violationResult_def)
next
  case False
  obtain s w2 where sc: "scoreWithGemini rt decision ctx w = (s, w2)"
    by (cases "scoreWithGemini rt decision ctx w")
  show ?thesis
  proof (cases s)
    case (Inr result)
    with False sc assms have "r = result" by (simp add: evaluateDecision_def)
    with scoreWithGemini_range[of rt decision ctx w result w2] sc Inr show ?thesis by simp
  next
    case (Inl err)
    with False sc assms have "r = localHeuristic rt u decision" by (simp add: evaluateDecision_def)
    with localHeuristic_range[of rt u decision] show ?thesis by auto
  qed
qed

lemma postGame_evaluated:
  assumes "username s \<noteq> []" and "current_game s = Some g"
    and "trim (case formDecision of None \<Rightarrow> [] | Some d \<Rightarrow> d) = decision" and "decision \<noteq> []"
    and "evaluateDecision rt u decision
           \<lparr>ctx_religion = religion g, ctx_followers = followers g, ctx_round = round_no g\<rparr> w
         = (Inr result, w1)"
  shows "postGame rt u (Some s) formDecision w =
           (snd (applyResult g decision result),
            Some (s\<lparr>current_game := Some (fst (applyResult g decision result))\<rparr>), w1)"
  using assms by (simp add: postGame_def Let_def split: prod.splits)

lemma applyResult_reply: "snd (applyResult g decision result) \<noteq> Status500"
  by (simp add: applyResult_def Let_def)

lemma postGame_no_500: "fst (postGame rt u sess formDecision w) \<noteq> Status500"
proof (cases sess)
  case None
  then show ?thesis by (simp add: postGame_def)
next
  case (Some s)
  show ?thesis
  proof (cases "username s = [] \<or> current_game s = None
                \<or> trim (case formDecision of None \<Rightarrow> [] | Some d \<Rightarrow> d) = []")
    case True
    with Some show ?thesis by (auto simp: postGame_def Let_def split: option.splits)
  next
    case False
    then obtain g where g: "current_game s = Some g" by auto
    let ?decision = "trim (case formDecision of None \<Rightarrow> [] | Some d \<Rightarrow> d)"
    let ?ctx = "\<lparr>ctx_religion = religion g, ctx_followers = followers g, ctx_round = round_no g\<rparr>"
    obtain result w1 where "evaluateDecision rt u ?decision ?ctx w = (Inr result, w1)"
      using evaluateDecision_returns by blast
    with False g Some show ?thesis
      by (simp add: postGame_evaluated[where decision = ?decision] applyResult_reply)
  qed
qed

subsection \<open>The examples, evaluated\<close>

lemma two_key_pool: "getApiKeys two_key_env = Inr [[107, 49], [107, 50]]"
  by (simp add: getApiKeys_def two_key_env_def trim_def isWhiteSpace_def)

lemma empty_pool:
  "getApiKeys empty_env =
     Inl (Error ''API_KEY / GOOGLE_API_KEY / GEMINI_API_KEY / GEMINI_API_KEYS is not set'')"
  by (simp add: getApiKeys_def empty_env_def trim_def)

lemma callGemini_all_fail:
  "callGemini (sample_runtime two_key_env failing_backend) decision ctx initial_world =
     (Inl (Error ''429 Too Many Requests''),
      \<lparr>aiClientCache = [[107, 49] \<mapsto> GoogleGenAI [107, 49], [107, 50] \<mapsto> GoogleGenAI [107, 50]],
       attempts = [([107, 49], Inl (Error ''429 Too Many Requests'')),
                   ([107, 50], Inl (Error ''429 Too Many Requests''))]\<rparr>)"
  by (simp add: callGemini_def sample_runtime_def two_key_pool attemptKey_def
      getClientForKey_def initial_world_def failing_backend_def recordAttempt_def Let_def)

lemma callGemini_second_key:
  "callGemini (sample_runtime two_key_env (second_key_backend resp)) decision ctx initial_world =
     (Inr resp,
      \<lparr>aiClientCache = [[107, 49] \<mapsto> GoogleGenAI [107, 49], [107, 50] \<mapsto> GoogleGenAI [107, 50]],
       attempts = [([107, 49], Inl (Error ''503 Service Unavailable'')),
                   ([107, 50], Inr resp)]\<rparr>)"
  by (simp add: callGemini_def sample_runtime_def two_key_pool attemptKey_def
      getClientForKey_def initial_world_def second_key_backend_def recordAttempt_def Let_def)

lemma lower_a: "toLowerCase (sample_runtime env backend) [97] = [97]"
  by (simp add: sample_runtime_def toLowerCase_vi_def)

lemma no_keyword_a: "\<not> hasViolationKeyword [97]"
  by (simp add: hasViolationKeyword_def VIOLATION_KEYWORDS_def)

lemma heuristic_a:
  "localHeuristic (sample_runtime env backend) (1 / 2) [97] =
     \<lparr>violation = False, change = 20, comment = JStr HEURISTIC_COMMENT, tips = []\<rparr>"
  by (simp add: localHeuristic_def lower_a no_keyword_a positiveScore_def negativeScore_def
      POSITIVE_KEYWORDS_def NEGATIVE_KEYWORDS_def randomFactor_def clamp_def Let_def)

lemma lower_BAO_LUC:
  "toLowerCase (sample_runtime env backend) [66, 7840, 79, 32, 76, 7920, 67]
     = [98, 7841, 111, 32, 108, 7921, 99]"
  by (simp add: sample_runtime_def toLowerCase_vi_def)

lemma lower_bao_luc:
  "toLowerCase (sample_runtime env backend) [98, 7841, 111, 32, 108, 7921, 99]
     = [98, 7841, 111, 32, 108, 7921, 99]"
  by (simp add: sample_runtime_def toLowerCase_vi_def)

lemma keyword_bao_luc: "hasViolationKeyword [98, 7841, 111, 32, 108, 7921, 99]"
  by (simp add: hasViolationKeyword_def VIOLATION_KEYWORDS_def)

lemma parse_sample_ok:
  "parseGeminiResult (sample_runtime env backend) (Candidates [Some SCORED_TEXT])
   = Inr \<lparr>p_change = 120, p_comment = JStr [111, 107], p_tips = [JStr [97]]\<rparr>"
  by (simp add: parseGeminiResult_def extractText_def partText_def trim_def isWhiteSpace_def
      jsonMatch_def sample_runtime_def sample_JSON_parse_def readFields_def SCORED_TEXT_def
      PROP_change_def PROP_comment_def PROP_tips_def)

lemma parse_sample_violated:
  "parseGeminiResult (sample_runtime env backend) (PlainString VIOLATED_TEXT)
   = Inr \<lparr>p_change = - 10000, p_comment = JStr [118, 105, 111, 108, 97, 116, 101, 100],
          p_tips = []\<rparr>"
  by (simp add: parseGeminiResult_def extractText_def trim_def isWhiteSpace_def
      jsonMatch_def sample_runtime_def sample_JSON_parse_def readFields_def SCORED_TEXT_def
      VIOLATED_TEXT_def PROP_change_def PROP_comment_def PROP_tips_def)

lemma parse_sample_null:
  "parseGeminiResult (sample_runtime env backend) (PlainString NULL_TEXT)
   = Inl (TypeError ''Cannot read properties of null'')"
  by (simp add: parseGeminiResult_def extractText_def trim_def isWhiteSpace_def
      jsonMatch_def sample_runtime_def sample_JSON_parse_def NULL_TEXT_def SCORED_TEXT_def
      VIOLATED_TEXT_def)

lemma parse_sample_violated_tips:
  "parseGeminiResult (sample_runtime env backend) (PlainString VIOLATED_TIPS_TEXT)
   = Inr \<lparr>p_change = - 10000, p_comment = JStr [118, 105, 111, 108, 97, 116, 101, 100],
          p_tips = [JStr [97]]\<rparr>"
  by (simp add: parseGeminiResult_def extractText_def trim_def isWhiteSpace_def
      jsonMatch_def sample_runtime_def sample_JSON_parse_def readFields_def SCORED_TEXT_def
      VIOLATED_TEXT_def NULL_TEXT_def VIOLATED_TIPS_TEXT_def
      PROP_change_def PROP_comment_def PROP_tips_def)

lemma duplicate_key_pool: "getApiKeys duplicate_key_env = Inr [[107, 49], [107, 49]]"
  by (simp add: getApiKeys_def duplicate_key_env_def trim_def isWhiteSpace_def Let_def)

lemma callGemini_duplicate_key:
  "callGemini (sample_runtime duplicate_key_env failing_backend) decision ctx initial_world =
     (Inl (Error ''429 Too Many Requests''),
      \<lparr>aiClientCache = [[107, 49] \<mapsto> GoogleGenAI [107, 49]],
       attempts = [([107, 49], Inl (Error ''429 Too Many Requests'')),
                   ([107, 49], Inl (Error ''429 Too Many Requests''))]\<rparr>)"
  by (simp add: callGemini_def sample_runtime_def duplicate_key_pool attemptKey_def
      getClientForKey_def initial_world_def failing_backend_def recordAttempt_def Let_def)

lemma lower_hoa_binh:
  "toLowerCase (sample_runtime env backend) [72, 111, 192, 32, 98, 236, 110, 104]
     = [104, 111, 224, 32, 98, 236, 110, 104]"
  by (simp add: sample_runtime_def toLowerCase_vi_def)

lemma no_keyword_hoa_binh: "\<not> hasViolationKeyword [104, 111, 224, 32, 98, 236, 110, 104]"
  by (simp add: hasViolationKeyword_def VIOLATION_KEYWORDS_def)

lemma heuristic_hoa_binh:
  "localHeuristic (sample_runtime env backend) (1 / 2) [72, 111, 192, 32, 98, 236, 110, 104] =
     \<lparr>violation = False, change = 70, comment = JStr HEURISTIC_COMMENT, tips = []\<rparr>"
  by (simp add: localHeuristic_def lower_hoa_binh no_keyword_hoa_binh positiveScore_def
      negativeScore_def POSITIVE_KEYWORDS_def NEGATIVE_KEYWORDS_def randomFactor_def clamp_def
      Let_def)

lemma lower_chien_tranh:
  "toLowerCase (sample_runtime env backend) [99, 104, 105, 7871, 110, 32, 116, 114, 97, 110, 104]
     = [99, 104, 105, 7871, 110, 32, 116, 114, 97, 110, 104]"
  by (simp add: sample_runtime_def toLowerCase_vi_def)

lemma no_keyword_chien_tranh:
  "\<not> hasViolationKeyword [99, 104, 105, 7871, 110, 32, 116, 114, 97, 110, 104]"
  by (simp add: hasViolationKeyword_def VIOLATION_KEYWORDS_def)

lemma heuristic_chien_tranh:
  "localHeuristic (sample_runtime env backend) (1 / 2)
       [99, 104, 105, 7871, 110, 32, 116, 114, 97, 110, 104] =
     \<lparr>violation = False, change = - 30, comment = JStr HEURISTIC_COMMENT, tips = []\<rparr>"
  by (simp add: localHeuristic_def lower_chien_tranh no_keyword_chien_tranh positiveScore_def
      negativeScore_def POSITIVE_KEYWORDS_def NEGATIVE_KEYWORDS_def randomFactor_def clamp_def
      Let_def)

lemma sample_runtime_env: "process_env (sample_runtime env backend) = env"
  by (simp add: sample_runtime_def)

lemma trim_a: "trim [97] = [97]"
  by (simp add: trim_def isWhiteSpace_def)

lemma evaluate_without_keys:
  "evaluateDecision (sample_runtime empty_env backend) (1 / 2) [97] ctx w =
     (Inr \<lparr>violation = False, change = 20, comment = JStr HEURISTIC_COMMENT, tips = []\<rparr>, w)"
  by (simp add: evaluateDecision_def scoreWithGemini_def callGemini_def Let_def empty_pool
      lower_a no_keyword_a heuristic_a sample_runtime_env)

subsection \<open>jsonMatch takes the first opening to the last closing brace\<close>

lemma jsonMatch_greedy:
  assumes "123 \<notin> set before" and "125 \<notin> set after"
  shows "jsonMatch (before @ 123 # mid @ 125 # after) = Some (123 # mid @ [125])"
proof -
  from assms(1) have "\<And>c. c \<in> set before \<Longrightarrow> c \<noteq> 123" by blast
  then have first_brace: "dropWhile (\<lambda>c. c \<noteq> 123) (before @ 123 # mid @ 125 # after)
      = 123 # mid @ 125 # after"
    by (simp add: dropWhile_append2)
  have "dropWhile (\<lambda>c. c \<noteq> 125) (rev after @ 125 # rev mid)
      = dropWhile (\<lambda>c. c \<noteq> 125) (125 # rev mid)"
    by (rule dropWhile_append2) (use assms(2) in auto)
  then have last_brace:
    "dropWhile (\<lambda>c. c \<noteq> 125) (rev after @ 125 # rev mid) = 125 # rev mid"
    by simp
  show ?thesis unfolding jsonMatch_def first_brace by (simp add: last_brace)
qed

lemma jsonMatch_no_opening:
  assumes "123 \<notin> set text"
  shows "jsonMatch text = None"
proof -
  from assms have "\<forall>c \<in> set text. c \<noteq> 123" by blast
  then have first_brace: "dropWhile (\<lambda>c. c \<noteq> 123) text = []" by simp
  show ?thesis unfolding jsonMatch_def first_brace by simp
qed

lemma jsonMatch_no_closing:
  assumes "123 \<notin> set before" and "125 \<notin> set rest"
  shows "jsonMatch (before @ 123 # rest) = None"
proof -
  from assms(1) have "\<And>c. c \<in> set before \<Longrightarrow> c \<noteq> 123" by blast
  then have first_brace: "dropWhile (\<lambda>c. c \<noteq> 123) (before @ 123 # rest) = 123 # rest"
    by (simp add: dropWhile_append2)
  from assms(2) have "\<forall>c \<in> set (rev rest). c \<noteq> 125" by auto
  then have last_brace: "dropWhile (\<lambda>c. c \<noteq> 125) (rev rest) = []" by simp
  show ?thesis unfolding jsonMatch_def first_brace by (simp add: last_brace)
qed

subsection \<open>What parseGeminiResult does when it does not meet null\<close>

lemma parseGeminiResult_unrecognised:
  "parseGeminiResult rt Unrecognised = Inl (Error ''Empty response from Gemini'')"
  by (simp add: parseGeminiResult_def extractText_def trim_def)

lemma parseGeminiResult_empty:
  "extractText resp = Inr text0 \<Longrightarrow> trim text0 = [] \<Longrightarrow>
     parseGeminiResult rt resp = Inl (Error ''Empty response from Gemini'')"
  by (simp add: parseGeminiResult_def)

lemma parseGeminiResult_not_json:
  "extractText resp = Inr text0 \<Longrightarrow> trim text0 \<noteq> [] \<Longrightarrow>
   JSON_parse rt (case jsonMatch (trim text0) of Some m \<Rightarrow> m | None \<Rightarrow> trim text0) = None \<Longrightarrow>
     parseGeminiResult rt resp = Inl (Error ''Gemini response not in JSON format'')"
  by (simp add: parseGeminiResult_def Let_def)

lemma parseGeminiResult_fields:
  assumes "extractText resp = Inr text0" and "trim text0 \<noteq> []"
    and "JSON_parse rt (case jsonMatch (trim text0) of Some m \<Rightarrow> m | None \<Rightarrow> trim text0)
           = Some parsed"
    and "parsed \<noteq> JNull"
  shows "\<exists>r. parseGeminiResult rt resp = Inr r
     \<and> p_change r = (case getProp parsed PROP_change of Some (JNum x) \<Rightarrow> x | _ \<Rightarrow> 0)
     \<and> ((\<forall>x. getProp parsed PROP_change \<noteq> Some (JNum x)) \<longrightarrow> p_change r = 0)
     \<and> (getProp parsed PROP_comment = None \<longrightarrow> p_comment r = JStr [])
     \<and> ((\<forall>xs. getProp parsed PROP_tips \<noteq> Some (JArr xs)) \<longrightarrow> p_tips r = [])"
proof -
  from assms have "parseGeminiResult rt resp = Inr (readFields parsed)"
    by (simp add: parseGeminiResult_def Let_def)
  moreover have "(\<forall>x. getProp parsed PROP_change \<noteq> Some (JNum x)) \<longrightarrow>
      p_change (readFields parsed) = 0"
    by (auto simp: readFields_def split: option.splits json.splits)
  moreover have "(\<forall>xs. getProp parsed PROP_tips \<noteq> Some (JArr xs)) \<longrightarrow>
      p_tips (readFields parsed) = []"
    by (auto simp: readFields_def split: option.splits json.splits)
  ultimately show ?thesis by (simp add: readFields_def)
qed

subsection \<open>What POST /game rejects without touching the session\<close>

lemma postGame_no_game:
  "sess = None \<or> (\<exists>s. sess = Some s \<and> (username s = [] \<or> current_game s = None)) \<Longrightarrow>
     postGame rt u sess formDecision w = (Redirect ''/'', sess, w)"
  by (auto simp: postGame_def)

lemma postGame_empty_decision:
  "trim (case formDecision of None \<Rightarrow> [] | Some d \<Rightarrow> d) = [] \<Longrightarrow>
     snd (postGame rt u sess formDecision w) = (sess, w)"
  by (auto simp: postGame_def Let_def split: option.splits)

section \<open>The claims\<close>

text \<open>
  Claim C1. \<open>evaluateDecision\<close> never throws: it always returns a result. When no
  violation keyword occurs and \<open>callGemini\<close> throws, or \<open>callGemini\<close> answers and
  \<open>parseGeminiResult\<close> throws, the result is that of \<open>localHeuristic\<close>. Every result
  is well formed (a violation carries the change -10000, any other result a change in
  [-400, 400]), and the handler of POST /game never reaches its \<open>catch\<close> (status 500).
  Thrown values are taken to be error objects, as \<open>jserror\<close> has them.
\<close>

theorem evaluateDecision_never_raises:
  "(\<exists>result w1. evaluateDecision rt u decision ctx w = (Inr result, w1))
   \<and> (\<forall>err w1. \<not> hasViolationKeyword (toLowerCase rt decision)
         \<and> callGemini rt decision ctx w = (Inl err, w1)
        \<longrightarrow> evaluateDecision rt u decision ctx w = (Inr (localHeuristic rt u decision), w1))
   \<and> (\<forall>resp err w1. \<not> hasViolationKeyword (toLowerCase rt decision)
         \<and> callGemini rt decision ctx w = (Inr resp, w1) \<and> parseGeminiResult rt resp = Inl err
        \<longrightarrow> evaluateDecision rt u decision ctx w = (Inr (localHeuristic rt u decision), w1))
   \<and> (\<forall>result w1. evaluateDecision rt u decision ctx w = (Inr result, w1)
        \<longrightarrow> (violation result \<longrightarrow> change result = - 10000)
          \<and> (\<not> violation result \<longrightarrow> - 400 \<le> change result \<and> change result \<le> 400))
   \<and> fst (postGame rt u sess formDecision w) \<noteq> Status500"
proof (intro conjI allI impI)
  show "\<exists>result w1. evaluateDecision rt u decision ctx w = (Inr result, w1)"
    by (rule evaluateDecision_returns)
next
  fix err w1
  assume "\<not> hasViolationKeyword (toLowerCase rt decision)
         \<and> callGemini rt decision ctx w = (Inl err, w1)"
  then show "evaluateDecision rt u decision ctx w = (Inr (localHeuristic rt u decision), w1)"
    by (simp add: evaluateDecision_def scoreWithGemini_def)
next
  fix resp err w1
  assume "\<not> hasViolationKeyword (toLowerCase rt decision)
         \<and> callGemini rt decision ctx w = (Inr resp, w1) \<and> parseGeminiResult rt resp = Inl err"
  then show "evaluateDecision rt u decision ctx w = (Inr (localHeuristic rt u decision), w1)"
    by (simp add: evaluateDecision_def scoreWithGemini_def)
next
  fix result w1
  assume e: "evaluateDecision rt u decision ctx w = (Inr result, w1)"
  { assume "violation result"
    with evaluateDecision_range[OF e] show "change result = - 10000" by simp }
  { assume "\<not> violation result"
    with evaluateDecision_range[OF e] show "- 400 \<le> change result" "change result \<le> 400"
      by simp_all }
next
  show "fst (postGame rt u sess formDecision w) \<noteq> Status500" by (rule postGame_no_500)
qed

text \<open>
  All keys fail, or key k2 answers the text \<^verbatim>\<open>null\<close> on which the parser throws: the
  result is the heuristic one.
\<close>

theorem evaluateDecision_never_raises_witness:
  "\<not> hasViolationKeyword (toLowerCase (sample_runtime two_key_env failing_backend) [97])
   \<and> fst (callGemini (sample_runtime two_key_env failing_backend) [97]
            \<lparr>ctx_religion = [97], ctx_followers = 100, ctx_round = 1\<rparr> initial_world)
       = Inl (Error ''429 Too Many Requests'')
   \<and> fst (evaluateDecision (sample_runtime two_key_env failing_backend) (1 / 2) [97]
            \<lparr>ctx_religion = [97], ctx_followers = 100, ctx_round = 1\<rparr> initial_world)
       = Inr \<lparr>violation = False, change = 20, comment = JStr HEURISTIC_COMMENT, tips = []\<rparr>
   \<and> fst (postGame (sample_runtime two_key_env failing_backend) (1 / 2)
            (Some \<lparr>username = [97], current_game = Some (newGame [97])\<rparr>) (Some [97])
            initial_world) \<noteq> Status500
   \<and> fst (callGemini (sample_runtime two_key_env (second_key_backend (PlainString NULL_TEXT)))
            [97] \<lparr>ctx_religion = [97], ctx_followers = 100, ctx_round = 1\<rparr> initial_world)
       = Inr (PlainString NULL_TEXT)
   \<and> parseGeminiResult (sample_runtime two_key_env (second_key_backend (PlainString NULL_TEXT)))
        (PlainString NULL_TEXT) = Inl (TypeError ''Cannot read properties of null'')
   \<and> fst (evaluateDecision
            (sample_runtime two_key_env (second_key_backend (PlainString NULL_TEXT))) (1 / 2)
            [97] \<lparr>ctx_religion = [97], ctx_followers = 100, ctx_round = 1\<rparr> initial_world)
       = Inr \<lparr>violation = False, change = 20, comment = JStr HEURISTIC_COMMENT, tips = []\<rparr>"
  using evaluateDecision_never_raises
    [of "sample_runtime two_key_env failing_backend" "1 / 2" "[97]"
        "\<lparr>ctx_religion = [97], ctx_followers = 100, ctx_round = 1\<rparr>" initial_world
        "Some \<lparr>username = [97], current_game = Some (newGame [97])\<rparr>" "Some [97]"]
    evaluateDecision_never_raises
    [of "sample_runtime two_key_env (second_key_backend (PlainString NULL_TEXT))" "1 / 2"
        "[97]" "\<lparr>ctx_religion = [97], ctx_followers = 100, ctx_round = 1\<rparr>" initial_world]
  by (simp add: callGemini_all_fail callGemini_second_key lower_a no_keyword_a heuristic_a
      parse_sample_null)

text \<open>
  Claim C2. When the lower-cased decision contains a violation keyword as a substring,
  \<open>evaluateDecision\<close> returns the fixed violation result (violation true, change -10000)
  and leaves the world as it was: no key is tried, no client is created, the backend is
  not called.
\<close>

theorem violation_keyword_short_circuit:
  assumes "kw \<in> set VIOLATION_KEYWORDS"
    and "toLowerCase rt decision = before @ kw @ after"
  shows "evaluateDecision rt u decision ctx w = (Inr violationResult, w)
     \<and> violation violationResult \<and> change violationResult = - 10000"
proof -
  from assms(2) have "str_includes (toLowerCase rt decision) kw"
    by (auto simp: str_includes_iff)
  with assms(1) have "hasViolationKeyword (toLowerCase rt decision)"
    by (auto simp: hasViolationKeyword_def list_ex_iff)
  then show ?thesis by (simp add: evaluateDecision_def violationResult_def)
qed

text \<open>The decision "BAO LUC" in capitals, with diacritics, matches the keyword "bao luc".\<close>

theorem violation_keyword_short_circuit_witness:
  "[98, 7841, 111, 32, 108, 7921, 99] \<in> set VIOLATION_KEYWORDS
   \<and> toLowerCase (sample_runtime two_key_env failing_backend) [66, 7840, 79, 32, 76, 7920, 67]
       = [] @ [98, 7841, 111, 32, 108, 7921, 99] @ []
   \<and> evaluateDecision (sample_runtime two_key_env failing_backend) (1 / 2)
        [66, 7840, 79, 32, 76, 7920, 67]
        \<lparr>ctx_religion = [97], ctx_followers = 100, ctx_round = 1\<rparr> initial_world
       = (Inr violationResult, initial_world)
   \<and> attempts initial_world = []"
proof -
  have k: "[98, 7841, 111, 32, 108, 7921, 99] \<in> set VIOLATION_KEYWORDS"
    by (simp add: VIOLATION_KEYWORDS_def)
  have l: "toLowerCase (sample_runtime two_key_env failing_backend)
             [66, 7840, 79, 32, 76, 7920, 67]
           = [] @ [98, 7841, 111, 32, 108, 7921, 99] @ []"
    by (simp add: lower_BAO_LUC)
  from violation_keyword_short_circuit[OF k l] k l show ?thesis
    by (simp add: initial_world_def)
qed

text \<open>
  Claim C3, as the code has it. The claim says that a parsed change of at most -10000
  gives the fixed violation result but for the model's comment; the counterexample below
  shows a result that carries the model's tips too. What holds, when no violation keyword
  occurs and the backend call and the parse succeed: a parsed change of at most -10000
  gives a violation result with change -10000, the model's comment when it has one (the
  fixed comment otherwise) and the model's tips (line 271); any other parsed change gives
  a non-violating result with the change clamped to [-400, 400]. So every non-violating
  result of \<open>evaluateDecision\<close> has its change in [-400, 400], and the heuristic's
  non-violating results lie in [-150, 300].
\<close>

theorem evaluateDecision_success_path:
  "(\<forall>resp parsed w1. \<not> hasViolationKeyword (toLowerCase rt decision)
        \<and> callGemini rt decision ctx w = (Inr resp, w1)
        \<and> parseGeminiResult rt resp = Inr parsed
      \<longrightarrow> evaluateDecision rt u decision ctx w =
            (Inr (if p_change parsed \<le> - 10000
                  then \<lparr>violation = True, change = - 10000,
                        comment = (if truthy (p_comment parsed) then p_comment parsed
                                   else JStr VIOLATION_COMMENT),
                        tips = p_tips parsed\<rparr>
                  else \<lparr>violation = False,
                        change = min 400 (max (- 400) (p_change parsed)),
                        comment = p_comment parsed, tips = p_tips parsed\<rparr>), w1))
   \<and> (\<forall>result w1. evaluateDecision rt u decision ctx w = (Inr result, w1) \<and> \<not> violation result
        \<longrightarrow> - 400 \<le> change result \<and> change result \<le> 400)
   \<and> (\<not> violation (localHeuristic rt u decision)
        \<longrightarrow> - 150 \<le> change (localHeuristic rt u decision)
          \<and> change (localHeuristic rt u decision) \<le> 300)"
proof (intro conjI allI impI)
  fix resp parsed w1
  assume a: "\<not> hasViolationKeyword (toLowerCase rt decision)
        \<and> callGemini rt decision ctx w = (Inr resp, w1)
        \<and> parseGeminiResult rt resp = Inr parsed"
  then have "truthy (p_comment parsed) \<or> p_comment parsed = JStr []"
    by (auto simp: parseGeminiResult_def readFields_def Let_def
             split: sum.splits if_splits option.splits)
  with a show "evaluateDecision rt u decision ctx w =
            (Inr (if p_change parsed \<le> - 10000
                  then \<lparr>violation = True, change = - 10000,
                        comment = (if truthy (p_comment parsed) then p_comment parsed
                                   else JStr VIOLATION_COMMENT),
                        tips = p_tips parsed\<rparr>
                  else \<lparr>violation = False,
                        change = min 400 (max (- 400) (p_change parsed)),
                        comment = p_comment parsed, tips = p_tips parsed\<rparr>), w1)"
    by (auto simp: evaluateDecision_def scoreWithGemini_def clamp_def)
next
  fix result w1
  assume e: "evaluateDecision rt u decision ctx w = (Inr result, w1) \<and> \<not> violation result"
  with evaluateDecision_range[of rt u decision ctx w result w1]
  show "- 400 \<le> change result" "change result \<le> 400" by simp_all
next
  assume "\<not> violation (localHeuristic rt u decision)"
  with localHeuristic_range[of rt u decision]
  show "- 150 \<le> change (localHeuristic rt u decision)"
    "change (localHeuristic rt u decision) \<le> 300" by simp_all
qed

text \<open>
  Key k1 fails and key k2 answers. The answer
  \<^verbatim>\<open>{"change": 120, "comment": "ok", "tips": ["a"]}\<close> gives a change of 120; the answer
  \<^verbatim>\<open>{"change": -10000, "comment": "violated"}\<close> gives a violation with that comment.
\<close>

theorem evaluateDecision_success_path_witness:
  "\<not> hasViolationKeyword
       (toLowerCase (sample_runtime two_key_env
          (second_key_backend (Candidates [Some SCORED_TEXT]))) [97])
   \<and> fst (callGemini (sample_runtime two_key_env
             (second_key_backend (Candidates [Some SCORED_TEXT]))) [97]
        \<lparr>ctx_religion = [97], ctx_followers = 100, ctx_round = 1\<rparr> initial_world)
      = Inr (Candidates [Some SCORED_TEXT])
   \<and> parseGeminiResult (sample_runtime two_key_env
          (second_key_backend (Candidates [Some SCORED_TEXT]))) (Candidates [Some SCORED_TEXT])
      = Inr \<lparr>p_change = 120, p_comment = JStr [111, 107], p_tips = [JStr [97]]\<rparr>
   \<and> fst (evaluateDecision (sample_runtime two_key_env
             (second_key_backend (Candidates [Some SCORED_TEXT]))) (1 / 2) [97]
        \<lparr>ctx_religion = [97], ctx_followers = 100, ctx_round = 1\<rparr> initial_world)
      = Inr \<lparr>violation = False, change = 120, comment = JStr [111, 107], tips = [JStr [97]]\<rparr>
   \<and> fst (callGemini (sample_runtime two_key_env
             (second_key_backend (PlainString VIOLATED_TEXT))) [97]
        \<lparr>ctx_religion = [97], ctx_followers = 100, ctx_round = 1\<rparr> initial_world)
      = Inr (PlainString VIOLATED_TEXT)
   \<and> parseGeminiResult (sample_runtime two_key_env
          (second_key_backend (PlainString VIOLATED_TEXT))) (PlainString VIOLATED_TEXT)
      = Inr \<lparr>p_change = - 10000, p_comment = JStr [118, 105, 111, 108, 97, 116, 101, 100],
             p_tips = []\<rparr>
   \<and> fst (evaluateDecision (sample_runtime two_key_env
             (second_key_backend (PlainString VIOLATED_TEXT))) (1 / 2) [97]
        \<lparr>ctx_religion = [97], ctx_followers = 100, ctx_round = 1\<rparr> initial_world)
      = Inr \<lparr>violation = True, change = - 10000,
             comment = JStr [118, 105, 111, 108, 97, 116, 101, 100], tips = []\<rparr>"
  using evaluateDecision_success_path
    [of "sample_runtime two_key_env (second_key_backend (Candidates [Some SCORED_TEXT]))"
        "[97]" "\<lparr>ctx_religion = [97], ctx_followers = 100, ctx_round = 1\<rparr>"
        initial_world "1 / 2"]
    evaluateDecision_success_path
    [of "sample_runtime two_key_env (second_key_backend (PlainString VIOLATED_TEXT))"
        "[97]" "\<lparr>ctx_religion = [97], ctx_followers = 100, ctx_round = 1\<rparr>"
        initial_world "1 / 2"]
  by (simp add: callGemini_second_key lower_a no_keyword_a parse_sample_ok
      parse_sample_violated)

text \<open>
  Key k2 answers \<^verbatim>\<open>{"change": -10000, "comment": "violated", "tips": ["a"]}\<close>: the
  result is a violation with the tips of the answer, not the fixed violation result with
  the comment replaced.
\<close>

theorem evaluateDecision_violation_tips_counterexample:
  "fst (callGemini (sample_runtime two_key_env
          (second_key_backend (PlainString VIOLATED_TIPS_TEXT))) [97]
        \<lparr>ctx_religion = [97], ctx_followers = 100, ctx_round = 1\<rparr> initial_world)
      = Inr (PlainString VIOLATED_TIPS_TEXT)
   \<and> parseGeminiResult (sample_runtime two_key_env
          (second_key_backend (PlainString VIOLATED_TIPS_TEXT)))
        (PlainString VIOLATED_TIPS_TEXT)
      = Inr \<lparr>p_change = - 10000, p_comment = JStr [118, 105, 111, 108, 97, 116, 101, 100],
             p_tips = [JStr [97]]\<rparr>
   \<and> fst (evaluateDecision (sample_runtime two_key_env
             (second_key_backend (PlainString VIOLATED_TIPS_TEXT))) (1 / 2) [97]
        \<lparr>ctx_religion = [97], ctx_followers = 100, ctx_round = 1\<rparr> initial_world)
      = Inr \<lparr>violation = True, change = - 10000,
             comment = JStr [118, 105, 111, 108, 97, 116, 101, 100], tips = [JStr [97]]\<rparr>
   \<and> fst (evaluateDecision (sample_runtime two_key_env
             (second_key_backend (PlainString VIOLATED_TIPS_TEXT))) (1 / 2) [97]
        \<lparr>ctx_religion = [97], ctx_followers = 100, ctx_round = 1\<rparr> initial_world)
      \<noteq> Inr (violationResult\<lparr>comment := JStr [118, 105, 111, 108, 97, 116, 101, 100]\<rparr>)"
  by (simp add: evaluateDecision_def scoreWithGemini_def callGemini_second_key lower_a
      no_keyword_a parse_sample_violated_tips violationResult_def)



text \<open>
  Claim C5, as the code has it. The claim says that each key is tried at most once per
  call; the counterexample below shows a key that stands twice in the pool and is tried
  twice. What holds: the pool has between one and six keys and is not de-duplicated. One
  call of \<open>callGemini\<close> tries a prefix of the pool, in the pool's order, each entry of
  the pool once and with no retry (so distinct keys are tried once each). The outcome of a
  try is the SDK's failure to give a client, or the backend's answer to the client that
  \<open>getClientForKey\<close> gives for that key: the cached one, or a new one bound to the
  key. Every try but the last failed, and the answer of the call is how the last try
  ended: a response is the first success, an error is the last key's error and comes only
  after all keys were tried. Afterwards the client of every tried key is in the cache (a
  new one is made only for a key that had none), the entries of all other keys are as
  before, and every client in the cache is handed out again as it is, with no state
  changed.
\<close>

theorem callGemini_failover:
  assumes "getApiKeys (process_env rt) = Inr keys"
    and "callGemini rt decision ctx w = (res, w')"
  shows "keys \<noteq> [] \<and> length keys \<le> 6
     \<and> (\<exists>outs. 1 \<le> length outs \<and> length outs \<le> length keys
          \<and> attempts w' = attempts w @ zip (take (length outs) keys) outs
          \<and> (\<forall>out \<in> set (butlast outs). isl out)
          \<and> last outs = res
          \<and> (isl res \<longrightarrow> length outs = length keys)
          \<and> (distinct keys \<longrightarrow> distinct (take (length outs) keys))
          \<and> (\<forall>i < length outs. outs ! i =
                (case fst (getClientForKey rt (keys ! i) w) of
                   Inl err \<Rightarrow> Inl err
                 | Inr cl \<Rightarrow>
                     generateContent rt (attempts w @ zip (take i keys) (take i outs)) cl
                       (buildGeminiPrompt rt decision ctx)))
          \<and> (\<forall>k \<in> set (take (length outs) keys). aiClientCache w' k =
                (case fst (getClientForKey rt k w) of Inl err \<Rightarrow> None | Inr cl \<Rightarrow> Some cl))
          \<and> (\<forall>k. k \<notin> set (take (length outs) keys) \<longrightarrow>
                aiClientCache w' k = aiClientCache w k))
     \<and> (\<forall>k. fst (getClientForKey rt k w) =
            (case aiClientCache w k of
               Some c \<Rightarrow> Inr c
             | None \<Rightarrow>
                 (case sdk_module rt of
                    ImportRejected err \<Rightarrow> Inl err
                  | ImportNoConstructor \<Rightarrow>
                      Inl (Error
                        ''Missing dependency @google/genai. Run: npm install @google/genai'')
                  | _ \<Rightarrow> Inr (GoogleGenAI k))))
     \<and> (\<forall>k c. aiClientCache w k = Some c \<longrightarrow> aiClientCache w' k = Some c)
     \<and> (\<forall>k c. aiClientCache w' k = Some c \<longrightarrow> getClientForKey rt k w' = (Inr c, w'))
     \<and> (\<forall>k. aiClientCache w k = None \<longrightarrow>
            aiClientCache w' k = None
            \<or> (k \<in> set keys \<and> aiClientCache w' k = Some (GoogleGenAI k)))"
proof -
  let ?p = "buildGeminiPrompt rt decision ctx"
  from assms have run: "tryKeys rt ?p keys None w = (res, w')"
    by (simp add: callGemini_def Let_def)
  from getApiKeys_pool[OF assms(1)] have pool: "keys \<noteq> []" "length keys \<le> 6" by simp_all
  from tryKeys_run[OF run] obtain outs where o:
    "length outs \<le> length keys"
    "attempts w' = attempts w @ zip (take (length outs) keys) outs"
    "\<forall>out \<in> set (butlast outs). isl out"
    "outs \<noteq> [] \<longrightarrow> last outs = res"
    "outs = [] \<longrightarrow> keys = []"
    "isl res \<longrightarrow> length outs = length keys"
    "\<forall>i < length outs. outs ! i =
        (case fst (getClientForKey rt (keys ! i) w) of
           Inl err \<Rightarrow> Inl err
         | Inr cl \<Rightarrow> generateContent rt (attempts w @ zip (take i keys) (take i outs)) cl ?p)"
    "\<forall>k \<in> set (take (length outs) keys). aiClientCache w' k =
        (case fst (getClientForKey rt k w) of Inl err \<Rightarrow> None | Inr cl \<Rightarrow> Some cl)"
    "\<forall>k. k \<notin> set (take (length outs) keys) \<longrightarrow> aiClientCache w' k = aiClientCache w k"
    by blast
  from o(5) pool(1) have ne: "outs \<noteq> []" by blast
  then have len: "1 \<le> length outs" by (cases outs) simp_all
  have dist: "distinct keys \<longrightarrow> distinct (take (length outs) keys)" by simp
  from o ne len dist have trace: "\<exists>outs. 1 \<le> length outs \<and> length outs \<le> length keys
          \<and> attempts w' = attempts w @ zip (take (length outs) keys) outs
          \<and> (\<forall>out \<in> set (butlast outs). isl out)
          \<and> last outs = res
          \<and> (isl res \<longrightarrow> length outs = length keys)
          \<and> (distinct keys \<longrightarrow> distinct (take (length outs) keys))
          \<and> (\<forall>i < length outs. outs ! i =
                (case fst (getClientForKey rt (keys ! i) w) of
                   Inl err \<Rightarrow> Inl err
                 | Inr cl \<Rightarrow>
                     generateContent rt (attempts w @ zip (take i keys) (take i outs)) cl ?p))
          \<and> (\<forall>k \<in> set (take (length outs) keys). aiClientCache w' k =
                (case fst (getClientForKey rt k w) of Inl err \<Rightarrow> None | Inr cl \<Rightarrow> Some cl))
          \<and> (\<forall>k. k \<notin> set (take (length outs) keys) \<longrightarrow>
                aiClientCache w' k = aiClientCache w k)"
    by blast
  have handed: "\<forall>k. fst (getClientForKey rt k w) =
            (case aiClientCache w k of
               Some c \<Rightarrow> Inr c
             | None \<Rightarrow>
                 (case sdk_module rt of
                    ImportRejected err \<Rightarrow> Inl err
                  | ImportNoConstructor \<Rightarrow>
                      Inl (Error
                        ''Missing dependency @google/genai. Run: npm install @google/genai'')
                  | _ \<Rightarrow> Inr (GoogleGenAI k)))"
    by (simp add: getClientForKey_result)
  have keep: "\<forall>k c. aiClientCache w k = Some c \<longrightarrow> aiClientCache w' k = Some c"
  proof (intro allI impI)
    fix k c assume c: "aiClientCache w k = Some c"
    show "aiClientCache w' k = Some c"
    proof (cases "k \<in> set (take (length outs) keys)")
      case True
      with o(8) have "aiClientCache w' k =
        (case fst (getClientForKey rt k w) of Inl err \<Rightarrow> None | Inr cl \<Rightarrow> Some cl)" by blast
      with c show ?thesis by (simp add: getClientForKey_result)
    next
      case False
      with o(9) c show ?thesis by simp
    qed
  qed
  have hit: "\<forall>k c. aiClientCache w' k = Some c \<longrightarrow> getClientForKey rt k w' = (Inr c, w')"
    by (simp add: getClientForKey_hit)
  have fresh: "\<forall>k. aiClientCache w k = None \<longrightarrow>
            aiClientCache w' k = None
            \<or> (k \<in> set keys \<and> aiClientCache w' k = Some (GoogleGenAI k))"
  proof (intro allI impI)
    fix k assume n: "aiClientCache w k = None"
    show "aiClientCache w' k = None
            \<or> (k \<in> set keys \<and> aiClientCache w' k = Some (GoogleGenAI k))"
    proof (cases "k \<in> set (take (length outs) keys)")
      case True
      then have "k \<in> set keys" by (rule in_set_takeD)
      moreover from True o(8) have "aiClientCache w' k =
        (case fst (getClientForKey rt k w) of Inl err \<Rightarrow> None | Inr cl \<Rightarrow> Some cl)" by blast
      ultimately show ?thesis using n
        by (auto simp: getClientForKey_result split: sdk_load.splits)
    next
      case False
      with o(9) n show ?thesis by simp
    qed
  qed
  from pool trace handed keep hit fresh show ?thesis by blast
qed

text \<open>
  Two keys, the first fails: both are tried once, in order, the answer is that of the
  second, and both clients are in the cache afterwards.
\<close>

theorem callGemini_failover_witness:
  "getApiKeys (process_env (sample_runtime two_key_env
       (second_key_backend (PlainString SCORED_TEXT)))) = Inr [[107, 49], [107, 50]]
   \<and> fst (callGemini (sample_runtime two_key_env (second_key_backend (PlainString SCORED_TEXT)))
            [97] \<lparr>ctx_religion = [97], ctx_followers = 100, ctx_round = 1\<rparr> initial_world)
       = Inr (PlainString SCORED_TEXT)
   \<and> attempts (snd (callGemini (sample_runtime two_key_env
            (second_key_backend (PlainString SCORED_TEXT)))
            [97] \<lparr>ctx_religion = [97], ctx_followers = 100, ctx_round = 1\<rparr> initial_world))
       = [([107, 49], Inl (Error ''503 Service Unavailable'')),
          ([107, 50], Inr (PlainString SCORED_TEXT))]
   \<and> aiClientCache (snd (callGemini (sample_runtime two_key_env
            (second_key_backend (PlainString SCORED_TEXT)))
            [97] \<lparr>ctx_religion = [97], ctx_followers = 100, ctx_round = 1\<rparr> initial_world))
       = [[107, 49] \<mapsto> GoogleGenAI [107, 49], [107, 50] \<mapsto> GoogleGenAI [107, 50]]
   \<and> (\<exists>outs. 1 \<le> length outs \<and> length outs \<le> 2
         \<and> attempts (snd (callGemini (sample_runtime two_key_env
              (second_key_backend (PlainString SCORED_TEXT)))
              [97] \<lparr>ctx_religion = [97], ctx_followers = 100, ctx_round = 1\<rparr> initial_world))
            = attempts initial_world @ zip (take (length outs) [[107, 49], [107, 50]]) outs
         \<and> last outs = Inr (PlainString SCORED_TEXT))"
proof -
  let ?rt = "sample_runtime two_key_env (second_key_backend (PlainString SCORED_TEXT))"
  let ?ctx = "\<lparr>ctx_religion = [97], ctx_followers = 100, ctx_round = 1\<rparr>"
  have pool: "getApiKeys (process_env ?rt) = Inr [[107, 49], [107, 50]]"
    by (simp add: sample_runtime_env two_key_pool)
  have run: "callGemini ?rt [97] ?ctx initial_world =
      (fst (callGemini ?rt [97] ?ctx initial_world), snd (callGemini ?rt [97] ?ctx initial_world))"
    by simp
  from callGemini_failover[OF pool run] have
    "\<exists>outs. 1 \<le> length outs \<and> length outs \<le> 2
         \<and> attempts (snd (callGemini ?rt [97] ?ctx initial_world))
            = attempts initial_world @ zip (take (length outs) [[107, 49], [107, 50]]) outs
         \<and> last outs = fst (callGemini ?rt [97] ?ctx initial_world)"
    by auto
  with pool show ?thesis by (simp add: callGemini_second_key)
qed

text \<open>
  The key k1 configured both in \<open>GEMINI_API_KEYS\<close> and in \<open>GEMINI_API_KEY\<close> stands
  twice in the pool, and one call tries it twice.
\<close>

theorem callGemini_duplicate_key_counterexample:
  "getApiKeys (process_env (sample_runtime duplicate_key_env failing_backend))
     = Inr [[107, 49], [107, 49]]
   \<and> attempts (snd (callGemini (sample_runtime duplicate_key_env failing_backend) [97]
        \<lparr>ctx_religion = [97], ctx_followers = 100, ctx_round = 1\<rparr> initial_world))
     = [([107, 49], Inl (Error ''429 Too Many Requests'')),
        ([107, 49], Inl (Error ''429 Too Many Requests''))]
   \<and> \<not> distinct (map fst (attempts (snd (callGemini
        (sample_runtime duplicate_key_env failing_backend) [97]
        \<lparr>ctx_religion = [97], ctx_followers = 100, ctx_round = 1\<rparr> initial_world))))"
  by (simp add: callGemini_duplicate_key sample_runtime_env duplicate_key_pool)



text \<open>
  Claim C7, at the response text \<^verbatim>\<open>null\<close>: \<open>JSON.parse\<close> succeeds with the value
  null, and reading \<open>parsed.change\<close> (line 236) throws a TypeError. The parser neither
  reports "not in JSON format" nor returns the triple with its defaults. (For every
  other parsed value the lemmas \<open>parseGeminiResult_fields\<close>, \<open>parseGeminiResult_empty\<close>
  and \<open>parseGeminiResult_not_json\<close> above hold.)
\<close>

theorem parseGeminiResult_null:
  "JSON_parse (sample_runtime two_key_env failing_backend) NULL_TEXT = Some JNull
   \<and> parseGeminiResult (sample_runtime two_key_env failing_backend) (PlainString NULL_TEXT)
       = Inl (TypeError ''Cannot read properties of null'')
   \<and> parseGeminiResult (sample_runtime two_key_env failing_backend) (Candidates [Some NULL_TEXT])
       = Inl (TypeError ''Cannot read properties of null'')"
  by (simp add: parseGeminiResult_def extractText_def partText_def trim_def isWhiteSpace_def
      jsonMatch_def sample_runtime_def sample_JSON_parse_def NULL_TEXT_def SCORED_TEXT_def
      VIOLATED_TEXT_def)

text \<open>
  Claim C8, at a game that has ended: a first decision "bao luc" ends the game (0
  followers, round 11), and a second POST /game with the decision "a" is evaluated all the
  same: the game goes to 20 followers and round 12, with a second history entry. The
  handler checks that a game exists and that the decision is not empty
  (\<open>postGame_no_game\<close>, \<open>postGame_empty_decision\<close> above), but not that the round is
  at most 10, which only the GET branch does (line 611).
\<close>

theorem postGame_after_violation:
  "postGame (sample_runtime empty_env failing_backend) (1 / 2)
      (Some \<lparr>username = [97], current_game = Some (newGame [97])\<rparr>)
      (Some [98, 7841, 111, 32, 108, 7921, 99]) initial_world
     = (Redirect ''/end'', Some violated_session, initial_world)
   \<and> postGame (sample_runtime empty_env failing_backend) (1 / 2)
      (Some violated_session) (Some [97]) initial_world
     = (Redirect ''/game'',
        Some \<lparr>username = [97],
              current_game = Some
                \<lparr>religion = [97], followers = 20, round_no = 12,
                 history =
                   [\<lparr>rr_round = 1, rr_decision = [98, 7841, 111, 32, 108, 7921, 99],
                     rr_change = ChangeText VI_PHAM, rr_comment = JStr VIOLATION_COMMENT,
                     rr_tips = None\<rparr>,
                    \<lparr>rr_round = 11, rr_decision = [97], rr_change = ChangeNumber 20,
                     rr_comment = JStr HEURISTIC_COMMENT, rr_tips = Some []\<rparr>],
                 lastFeedback = Some
                   \<lparr>violation = False, change = 20, comment = JStr HEURISTIC_COMMENT,
                    tips = []\<rparr>\<rparr>\<rparr>,
        initial_world)"
proof -
  have t: "trim [98, 7841, 111, 32, 108, 7921, 99] = [98, 7841, 111, 32, 108, 7921, 99]"
    by (simp add: trim_def isWhiteSpace_def)
  have e: "\<And>ctx. evaluateDecision (sample_runtime empty_env failing_backend) (1 / 2)
             [98, 7841, 111, 32, 108, 7921, 99] ctx initial_world
           = (Inr violationResult, initial_world)"
    by (simp add: evaluateDecision_def lower_bao_luc keyword_bao_luc)
  have first: "postGame (sample_runtime empty_env failing_backend) (1 / 2)
      (Some \<lparr>username = [97], current_game = Some (newGame [97])\<rparr>)
      (Some [98, 7841, 111, 32, 108, 7921, 99]) initial_world
     = (Redirect ''/end'', Some violated_session, initial_world)"
    by (simp add: postGame_def t e applyResult_def newGame_def violated_session_def
        violationResult_def)
  have second: "postGame (sample_runtime empty_env failing_backend) (1 / 2)
      (Some violated_session) (Some [97]) initial_world
     = (Redirect ''/game'',
        Some \<lparr>username = [97],
              current_game = Some
                \<lparr>religion = [97], followers = 20, round_no = 12,
                 history =
                   [\<lparr>rr_round = 1, rr_decision = [98, 7841, 111, 32, 108, 7921, 99],
                     rr_change = ChangeText VI_PHAM, rr_comment = JStr VIOLATION_COMMENT,
                     rr_tips = None\<rparr>,
                    \<lparr>rr_round = 11, rr_decision = [97], rr_change = ChangeNumber 20,
                     rr_comment = JStr HEURISTIC_COMMENT, rr_tips = Some []\<rparr>],
                 lastFeedback = Some
                   \<lparr>violation = False, change = 20, comment = JStr HEURISTIC_COMMENT,
                    tips = []\<rparr>\<rparr>\<rparr>,
        initial_world)"
    by (simp add: postGame_def trim_a evaluate_without_keys applyResult_def
        violated_session_def Let_def)
  from first second show ?thesis by simp
qed

text \<open>
  Claim C9, as the code has it. The claim says that a missing credential is fatal at
  startup and is not recovered by the heuristic; the counterexample shows an evaluation
  that succeeds without any credential. What holds: when the environment has no
  credential, \<open>getApiKeys\<close> throws its one error inside every \<open>callGemini\<close>, which tries
  no key and leaves the world unchanged, and \<open>evaluateDecision\<close> catches it and returns
  the fixed violation result or the heuristic's result.
\<close>

theorem no_credentials_falls_back:
  assumes "getApiKeys (process_env rt) = Inl err"
  shows "err = Error ''API_KEY / GOOGLE_API_KEY / GEMINI_API_KEY / GEMINI_API_KEYS is not set''
     \<and> callGemini rt decision ctx w = (Inl err, w)
     \<and> evaluateDecision rt u decision ctx w =
         (Inr (if hasViolationKeyword (toLowerCase rt decision) then violationResult
               else localHeuristic rt u decision), w)"
proof -
  from assms have "err = Error ''API_KEY / GOOGLE_API_KEY / GEMINI_API_KEY / GEMINI_API_KEYS is not set''"
    unfolding getApiKeys_def Let_def by (simp split: if_splits)
  moreover from assms have c: "callGemini rt decision ctx w = (Inl err, w)"
    by (simp add: callGemini_def Let_def)
  moreover from c have "evaluateDecision rt u decision ctx w =
         (Inr (if hasViolationKeyword (toLowerCase rt decision) then violationResult
               else localHeuristic rt u decision), w)"
    by (simp add: evaluateDecision_def scoreWithGemini_def)
  ultimately show ?thesis by blast
qed

text \<open>
  With no credential in the environment, a decision is still evaluated: the heuristic
  scores "a" with 20, and nothing is thrown to the caller.
\<close>

theorem no_credentials_counterexample:
  "getApiKeys (process_env (sample_runtime empty_env failing_backend))
     = Inl (Error ''API_KEY / GOOGLE_API_KEY / GEMINI_API_KEY / GEMINI_API_KEYS is not set'')
   \<and> evaluateDecision (sample_runtime empty_env failing_backend) (1 / 2) [97]
        \<lparr>ctx_religion = [97], ctx_followers = 100, ctx_round = 1\<rparr> initial_world
     = (Inr \<lparr>violation = False, change = 20, comment = JStr HEURISTIC_COMMENT, tips = []\<rparr>,
        initial_world)"
  by (simp add: evaluate_without_keys empty_pool sample_runtime_env)

theorem no_credentials_falls_back_witness:
  "getApiKeys (process_env (sample_runtime empty_env failing_backend))
     = Inl (Error ''API_KEY / GOOGLE_API_KEY / GEMINI_API_KEY / GEMINI_API_KEYS is not set'')
   \<and> callGemini (sample_runtime empty_env failing_backend)
        [72, 111, 192, 32, 98, 236, 110, 104]
        \<lparr>ctx_religion = [97], ctx_followers = 100, ctx_round = 1\<rparr> initial_world
     = (Inl (Error ''API_KEY / GOOGLE_API_KEY / GEMINI_API_KEY / GEMINI_API_KEYS is not set''),
        initial_world)
   \<and> evaluateDecision (sample_runtime empty_env failing_backend) (1 / 2)
        [72, 111, 192, 32, 98, 236, 110, 104]
        \<lparr>ctx_religion = [97], ctx_followers = 100, ctx_round = 1\<rparr> initial_world
     = (Inr \<lparr>violation = False, change = 70, comment = JStr HEURISTIC_COMMENT, tips = []\<rparr>,
        initial_world)"
proof -
  have pool: "getApiKeys (process_env (sample_runtime empty_env failing_backend))
     = Inl (Error ''API_KEY / GOOGLE_API_KEY / GEMINI_API_KEY / GEMINI_API_KEYS is not set'')"
    by (simp add: sample_runtime_env empty_pool)
  from no_credentials_falls_back[OF pool, of "[72, 111, 192, 32, 98, 236, 110, 104]"
      "\<lparr>ctx_religion = [97], ctx_followers = 100, ctx_round = 1\<rparr>" initial_world "1 / 2"] pool
  show ?thesis
    by (simp add: lower_hoa_binh no_keyword_hoa_binh heuristic_hoa_binh)
qed

text \<open>
  Claim C10. "Bao luc" and "me tin" are exactly the keywords that are both violation and
  negative keywords. A decision whose lower-cased text contains either is a violation for
  \<open>evaluateDecision\<close> (which leaves the world unchanged) and for \<open>localHeuristic\<close>. So
  whenever the heuristic's result is not a violation, these two words take nothing off the
  score: only "chien tranh", "phan biet" and "ap buc" are counted.
\<close>

theorem keyword_overlap:
  "set VIOLATION_KEYWORDS \<inter> set NEGATIVE_KEYWORDS =
      {[98, 7841, 111, 32, 108, 7921, 99], [109, 234, 32, 116, 237, 110]}
   \<and> (\<forall>kw before after.
        kw \<in> {[98, 7841, 111, 32, 108, 7921, 99], [109, 234, 32, 116, 237, 110]}
        \<and> toLowerCase rt decision = before @ kw @ after
        \<longrightarrow> evaluateDecision rt u decision ctx w = (Inr violationResult, w)
          \<and> localHeuristic rt u decision = violationResult)
   \<and> (\<not> violation (localHeuristic rt u decision) \<longrightarrow>
        negativeScore (toLowerCase rt decision) score0 =
          score0 - int (length (filter (str_includes (toLowerCase rt decision))
            [[99, 104, 105, 7871, 110, 32, 116, 114, 97, 110, 104],
             [112, 104, 226, 110, 32, 98, 105, 7879, 116],
             [225, 112, 32, 98, 7913, 99]])))"
proof (intro conjI allI impI)
  show "set VIOLATION_KEYWORDS \<inter> set NEGATIVE_KEYWORDS =
      {[98, 7841, 111, 32, 108, 7921, 99], [109, 234, 32, 116, 237, 110]}"
    by (simp add: VIOLATION_KEYWORDS_def NEGATIVE_KEYWORDS_def)
next
  fix kw before after
  assume a: "kw \<in> {[98, 7841, 111, 32, 108, 7921, 99], [109, 234, 32, 116, 237, 110]}
        \<and> toLowerCase rt decision = before @ kw @ after"
  then have "kw \<in> set VIOLATION_KEYWORDS" by (auto simp: VIOLATION_KEYWORDS_def)
  moreover from a have "str_includes (toLowerCase rt decision) kw"
    by (auto simp: str_includes_iff)
  ultimately have h: "hasViolationKeyword (toLowerCase rt decision)"
    by (auto simp: hasViolationKeyword_def list_ex_iff)
  then show "evaluateDecision rt u decision ctx w = (Inr violationResult, w)"
    by (simp add: evaluateDecision_def)
  from h show "localHeuristic rt u decision = violationResult"
    by (simp add: localHeuristic_def)
next
  assume "\<not> violation (localHeuristic rt u decision)"
  then have "\<not> hasViolationKeyword (toLowerCase rt decision)"
    by (auto simp: localHeuristic_def violationResult_def)
  then have "\<not> str_includes (toLowerCase rt decision) [98, 7841, 111, 32, 108, 7921, 99]"
    and "\<not> str_includes (toLowerCase rt decision) [109, 234, 32, 116, 237, 110]"
    by (simp_all add: hasViolationKeyword_def VIOLATION_KEYWORDS_def)
  then show "negativeScore (toLowerCase rt decision) score0 =
          score0 - int (length (filter (str_includes (toLowerCase rt decision))
            [[99, 104, 105, 7871, 110, 32, 116, 114, 97, 110, 104],
             [112, 104, 226, 110, 32, 98, 105, 7879, 116],
             [225, 112, 32, 98, 7913, 99]]))"
    by (simp add: negativeScore_eq NEGATIVE_KEYWORDS_def)
qed

text \<open>
  "BAO LUC" is a violation for both functions; "chien tranh" is not, and lowers the
  score by one.
\<close>

theorem keyword_overlap_witness:
  "[98, 7841, 111, 32, 108, 7921, 99]
      \<in> {[98, 7841, 111, 32, 108, 7921, 99], [109, 234, 32, 116, 237, 110]}
   \<and> toLowerCase (sample_runtime two_key_env failing_backend) [66, 7840, 79, 32, 76, 7920, 67]
       = [] @ [98, 7841, 111, 32, 108, 7921, 99] @ []
   \<and> evaluateDecision (sample_runtime two_key_env failing_backend) (1 / 2)
        [66, 7840, 79, 32, 76, 7920, 67]
        \<lparr>ctx_religion = [97], ctx_followers = 100, ctx_round = 1\<rparr> initial_world
       = (Inr violationResult, initial_world)
   \<and> localHeuristic (sample_runtime two_key_env failing_backend) (1 / 2)
        [66, 7840, 79, 32, 76, 7920, 67] = violationResult
   \<and> \<not> violation (localHeuristic (sample_runtime two_key_env failing_backend) (1 / 2)
        [99, 104, 105, 7871, 110, 32, 116, 114, 97, 110, 104])
   \<and> negativeScore (toLowerCase (sample_runtime two_key_env failing_backend)
        [99, 104, 105, 7871, 110, 32, 116, 114, 97, 110, 104]) 0 = - 1"
proof -
  let ?rt = "sample_runtime two_key_env failing_backend"
  let ?ctx = "\<lparr>ctx_religion = [97], ctx_followers = 100, ctx_round = 1\<rparr>"
  have m: "[98, 7841, 111, 32, 108, 7921, 99]
      \<in> {[98, 7841, 111, 32, 108, 7921, 99], [109, 234, 32, 116, 237, 110::nat]}"
    by simp
  have l: "toLowerCase ?rt [66, 7840, 79, 32, 76, 7920, 67]
       = [] @ [98, 7841, 111, 32, 108, 7921, 99] @ []"
    by (simp add: lower_BAO_LUC)
  have nv: "\<not> violation (localHeuristic ?rt (1 / 2)
        [99, 104, 105, 7871, 110, 32, 116, 114, 97, 110, 104])"
    by (simp add: heuristic_chien_tranh)
  from keyword_overlap[of ?rt "[66, 7840, 79, 32, 76, 7920, 67]" "1 / 2" ?ctx initial_world]
    m l
  have a: "evaluateDecision ?rt (1 / 2) [66, 7840, 79, 32, 76, 7920, 67] ?ctx initial_world
             = (Inr violationResult, initial_world)
         \<and> localHeuristic ?rt (1 / 2) [66, 7840, 79, 32, 76, 7920, 67] = violationResult"
    by blast
  from keyword_overlap[of ?rt "[99, 104, 105, 7871, 110, 32, 116, 114, 97, 110, 104]" "1 / 2"
      ?ctx initial_world 0] nv
  have b: "negativeScore (toLowerCase ?rt
        [99, 104, 105, 7871, 110, 32, 116, 114, 97, 110, 104]) 0 = - 1"
    by (simp add: lower_chien_tranh)
  from m l nv a b show ?thesis by simp
qed

end
